theory Spec2Isabelle
  imports Main "HOL-Library.Word" "HOL-Library.Sublist"
begin

section \<open>Cache version strings (service worker generator script)\<close>










section \<open>The platform of the service worker\<close>

text \<open>
  The worker runs against four pieces of the browser: the location it was loaded from,
  \<^verbatim>\<open>fetch\<close>, the \<^verbatim>\<open>CacheStorage\<close> behind \<^verbatim>\<open>caches\<close>, and
  \<^verbatim>\<open>String.prototype.localeCompare\<close>.  They are modelled as data:
  a response is a record, a cache is the list of its entries (request URL and stored
  response, oldest first), the cache storage is the list of the named caches in creation
  order, and what the browser answers during one event is a record of functions.
\<close>

datatype response_type = Basic | Cors | Opaque | Default

record response =
  status :: nat
  statusText :: string
  rtype :: response_type
  headers :: "(string \<times> string) list"
  body :: "string option"

text \<open>\<^verbatim>\<open>response.ok\<close>: the status is in the range 200 to 299.\<close>

definition ok :: "response \<Rightarrow> bool" where
  "ok r = (200 \<le> status r \<and> status r \<le> 299)"

text \<open>\<^verbatim>\<open>new Response(body, { status, statusText, headers })\<close>.\<close>

definition new_Response :: "string option \<Rightarrow> nat \<Rightarrow> string \<Rightarrow> (string \<times> string) list \<Rightarrow> response" where
  "new_Response b st txt hs =
     \<lparr>status = st, statusText = txt, rtype = Default, headers = hs, body = b\<rparr>"

record request =
  req_url :: string
  req_method :: string
  req_mode :: string
  req_destination :: string

datatype fetch_options = NoOptions | NoCache | NoCacheTimeout nat

datatype fetch_result = NetworkError | Resp response

datatype error = TypeError | StorageError

definition error_message :: "error \<Rightarrow> string" where
  "error_message e = (case e of TypeError \<Rightarrow> ''Failed to fetch'' | StorageError \<Rightarrow> ''Cache storage failed'')"

type_synonym cache = "(string \<times> response) list"
type_synonym cache_storage = "(string \<times> cache) list"

text \<open>
  What the browser answers during one event.  \<open>fetch\<close> is the network as the worker
  sees it (a rejected promise is \<open>NetworkError\<close>); \<open>cache_api_ok\<close> tells whether the
  operations of the cache storage resolve (they reject otherwise, for instance when the
  storage is unavailable); \<open>put_accepts\<close> tells which responses \<^verbatim>\<open>cache.put\<close>
  stores (it rejects a 206 response, for one); \<open>localeCompare\<close> is the collation.
  Within one event the same request gets the same answer; between events the platform may
  change.
\<close>

record platform =
  fetch :: "request \<Rightarrow> fetch_options \<Rightarrow> fetch_result"
  cache_api_ok :: bool
  put_accepts :: "response \<Rightarrow> bool"
  localeCompare :: "string \<Rightarrow> string \<Rightarrow> int"

record location =
  protocol :: string
  hostname :: string
  port :: string
  origin :: string

text \<open>
  The constants of the template.  \<open>APP_NAME\<close> and \<open>APP_VERSION\<close> are the values the
  generator substitutes for the placeholders; the two recovery documents and the
  serialised default manifest are long literals of the template and are carried as
  fields.
\<close>

record config =
  APP_NAME :: string
  APP_VERSION :: string
  self_location :: location
  DEV_OFFLINE_PAGE :: string
  OFFLINE_PAGE :: string
  DEFAULT_MANIFEST :: string

definition CACHE_NAME :: "config \<Rightarrow> string" where
  "CACHE_NAME cfg = APP_NAME cfg @ ''-v'' @ APP_VERSION cfg"

definition CACHE_VERSION :: "config \<Rightarrow> string" where
  "CACHE_VERSION cfg = APP_VERSION cfg"

definition CACHE_PREFIX :: "config \<Rightarrow> string" where
  "CACHE_PREFIX cfg = APP_NAME cfg @ ''-v''"

definition MAX_CACHES :: nat where
  "MAX_CACHES = 5"

definition isDevelopment :: "config \<Rightarrow> bool" where
  "isDevelopment cfg =
     (let loc = self_location cfg in
      (hostname loc = ''localhost'' \<and> port loc = ''5173'') \<or>
      (hostname loc = ''127.0.0.1'' \<and> port loc = ''5173'') \<or>
      protocol loc = ''file:'')"

definition STATIC_CACHE_URLS :: "string list" where
  "STATIC_CACHE_URLS =
     [''/'',
      ''/index.html'',
      ''/manifest.json'',
      ''/assets/img/icons/nuwault_icon_16x16.png'',
      ''/assets/img/icons/nuwault_icon_32x32.png'',
      ''/assets/img/icons/nuwault_icon_48x48.png'',
      ''/assets/img/icons/nuwault_icon_72x72.png'',
      ''/assets/img/icons/nuwault_icon_96x96.png'',
      ''/assets/img/icons/nuwault_icon_128x128.png'',
      ''/assets/img/icons/nuwault_icon_144x144.png'',
      ''/assets/img/icons/nuwault_icon_152x152.png'',
      ''/assets/img/icons/nuwault_icon_180x180.png'',
      ''/assets/img/icons/nuwault_icon_192x192.png'',
      ''/assets/img/icons/nuwault_icon_384x384.png'',
      ''/assets/img/icons/nuwault_icon_512x512.png'',
      ''/assets/img/favicon/favicon-96x96.png'',
      ''/assets/img/favicon/favicon.svg'',
      ''/assets/img/favicon/favicon.ico'',
      ''/assets/img/favicon/apple-touch-icon.png'',
      ''/assets/img/favicon/web-app-manifest-192x192.png'',
      ''/assets/img/favicon/web-app-manifest-512x512.png'',
      ''/assets/img/logo/nuwault_logo_horizontal_dark_360px.png'',
      ''/assets/img/logo/nuwault_logo_horizontal_light_360px.png'',
      ''/assets/img/logo/nuwault_logo_horizontal_white_360px.png'',
      ''/assets/img/logo/nuwault_logo_symbol.svg'']"

subsection \<open>Strings and URLs\<close>

text \<open>\<^verbatim>\<open>s.includes(pat)\<close>; \<^verbatim>\<open>s.startsWith(pat)\<close> is \<open>prefix pat s\<close>.\<close>

fun str_includes :: "string \<Rightarrow> string \<Rightarrow> bool" where
  "str_includes [] pat = (pat = [])"
| "str_includes (c # cs) pat = (prefix pat (c # cs) \<or> str_includes cs pat)"

definition ends_with :: "string \<Rightarrow> string \<Rightarrow> bool" where
  "ends_with s suf = (length suf \<le> length s \<and> drop (length s - length suf) s = suf)"

text \<open>\<^verbatim>\<open>s.replace(pat, rep)\<close> with a string pattern: the first occurrence only.\<close>

fun replace_first :: "string \<Rightarrow> string \<Rightarrow> string \<Rightarrow> string" where
  "replace_first pat rep [] = (if pat = [] then rep else [])"
| "replace_first pat rep (c # cs) =
     (if prefix pat (c # cs) then rep @ drop (length pat) (c # cs)
      else c # replace_first pat rep cs)"

text \<open>
  The URLs the worker handles are serialised absolute URLs of the form
  \<^verbatim>\<open>scheme://authority/path?query#fragment\<close>.  \<open>url_pathname\<close> is the
  \<^verbatim>\<open>pathname\<close> of \<^verbatim>\<open>new URL(url)\<close> for such a string and \<open>url_origin\<close>
  its \<^verbatim>\<open>origin\<close> (scheme and authority).
\<close>

fun after_scheme :: "string \<Rightarrow> string" where
  "after_scheme (a # b # c # rest) =
     (if a = CHR '':'' \<and> b = CHR ''/'' \<and> c = CHR ''/'' then rest
      else after_scheme (b # c # rest))"
| "after_scheme _ = []"

definition path_start :: "char \<Rightarrow> bool" where
  "path_start c = (c = CHR ''/'' \<or> c = CHR ''?'' \<or> c = CHR ''#'')"

definition url_pathname :: "string \<Rightarrow> string" where
  "url_pathname u =
     (let rest = dropWhile (\<lambda>c. \<not> path_start c) (after_scheme u);
          p = takeWhile (\<lambda>c. c \<noteq> CHR ''?'' \<and> c \<noteq> CHR ''#'') rest
      in if p = [] then ''/'' else p)"

definition url_origin :: "string \<Rightarrow> string" where
  "url_origin u =
     take (length u - length (dropWhile (\<lambda>c. \<not> path_start c) (after_scheme u))) u"

text \<open>
  A reference the worker passes as a string (\<^verbatim>\<open>'/index.html'\<close>, a discovered asset)
  is resolved against the worker's own URL: a path-absolute reference keeps the origin, a
  scheme-relative one (\<^verbatim>\<open>//host/path\<close>) keeps the scheme only.  The request built
  from it has the defaults of \<^verbatim>\<open>new Request(url)\<close>.
\<close>

definition resolve_url :: "config \<Rightarrow> string \<Rightarrow> string" where
  "resolve_url cfg ref =
     (if prefix ''//'' ref then protocol (self_location cfg) @ ref
      else origin (self_location cfg) @ ref)"

definition Request_of :: "config \<Rightarrow> string \<Rightarrow> request" where
  "Request_of cfg ref =
     \<lparr>req_url = resolve_url cfg ref, req_method = ''GET'', req_mode = ''cors'',
      req_destination = []\<rparr>"

text \<open>The key of a cache entry: the request URL without its fragment.\<close>

definition request_key :: "string \<Rightarrow> string" where
  "request_key u = takeWhile (\<lambda>c. c \<noteq> CHR ''#'') u"

subsection \<open>The cache storage\<close>

definition store_open :: "string \<Rightarrow> cache_storage \<Rightarrow> cache_storage" where
  "store_open name s = (if name \<in> set (map fst s) then s else s @ [(name, [])])"

definition store_delete :: "string \<Rightarrow> cache_storage \<Rightarrow> cache_storage" where
  "store_delete name s = filter (\<lambda>(n, c). n \<noteq> name) s"

definition entry_put :: "string \<Rightarrow> response \<Rightarrow> cache \<Rightarrow> cache" where
  "entry_put key r c = filter (\<lambda>(k, v). k \<noteq> key) c @ [(key, r)]"

definition store_put :: "string \<Rightarrow> string \<Rightarrow> response \<Rightarrow> cache_storage \<Rightarrow> cache_storage" where
  "store_put name key r s = map (\<lambda>(n, c). if n = name then (n, entry_put key r c) else (n, c)) s"

definition store_match :: "cache_storage \<Rightarrow> string \<Rightarrow> response option" where
  "store_match s key = map_of (concat (map snd s)) key"

definition caches_keys :: "platform \<Rightarrow> cache_storage \<Rightarrow> error + string list" where
  "caches_keys plat s = (if cache_api_ok plat then Inr (map fst s) else Inl StorageError)"

definition caches_open :: "platform \<Rightarrow> string \<Rightarrow> cache_storage \<Rightarrow> error + cache_storage" where
  "caches_open plat name s = (if cache_api_ok plat then Inr (store_open name s) else Inl StorageError)"

definition caches_delete :: "platform \<Rightarrow> string \<Rightarrow> cache_storage \<Rightarrow> error + cache_storage" where
  "caches_delete plat name s = (if cache_api_ok plat then Inr (store_delete name s) else Inl StorageError)"

definition caches_match :: "platform \<Rightarrow> cache_storage \<Rightarrow> string \<Rightarrow> error + response option" where
  "caches_match plat s u =
     (if cache_api_ok plat then Inr (store_match s (request_key u)) else Inl StorageError)"

text \<open>
  \<^verbatim>\<open>cache.put(request, response)\<close> on the cache opened under \<open>name\<close>, and
  \<^verbatim>\<open>cache.add(url)\<close> and \<^verbatim>\<open>cache.addAll(urls)\<close>: \<^verbatim>\<open>add\<close> fetches and
  rejects with a \<^verbatim>\<open>TypeError\<close> unless the response is ok and can be stored;
  \<^verbatim>\<open>addAll\<close> stores nothing unless every one of its requests succeeds.
\<close>

definition cache_put :: "platform \<Rightarrow> string \<Rightarrow> string \<Rightarrow> response \<Rightarrow> cache_storage \<Rightarrow> error + cache_storage" where
  "cache_put plat name u r s =
     (if \<not> cache_api_ok plat then Inl StorageError
      else if \<not> put_accepts plat r then Inl TypeError
      else Inr (store_put name (request_key u) r s))"

definition addable :: "config \<Rightarrow> platform \<Rightarrow> string \<Rightarrow> bool" where
  "addable cfg plat ref =
     (case fetch plat (Request_of cfg ref) NoOptions of
        NetworkError \<Rightarrow> False
      | Resp r \<Rightarrow> ok r \<and> put_accepts plat r)"

definition cache_add :: "config \<Rightarrow> platform \<Rightarrow> string \<Rightarrow> string \<Rightarrow> cache_storage \<Rightarrow> error + cache_storage" where
  "cache_add cfg plat name ref s =
     (if \<not> cache_api_ok plat then Inl StorageError
      else (case fetch plat (Request_of cfg ref) NoOptions of
              NetworkError \<Rightarrow> Inl TypeError
            | Resp r \<Rightarrow>
                if ok r then cache_put plat name (resolve_url cfg ref) r s else Inl TypeError))"

fun put_fetched :: "config \<Rightarrow> platform \<Rightarrow> string \<Rightarrow> string list \<Rightarrow> cache_storage \<Rightarrow> cache_storage" where
  "put_fetched cfg plat name [] s = s"
| "put_fetched cfg plat name (ref # refs) s =
     (case fetch plat (Request_of cfg ref) NoOptions of
        NetworkError \<Rightarrow> put_fetched cfg plat name refs s
      | Resp r \<Rightarrow>
          put_fetched cfg plat name refs (store_put name (request_key (resolve_url cfg ref)) r s))"

definition cache_addAll :: "config \<Rightarrow> platform \<Rightarrow> string \<Rightarrow> string list \<Rightarrow> cache_storage \<Rightarrow> error + cache_storage" where
  "cache_addAll cfg plat name refs s =
     (if \<not> cache_api_ok plat then Inl StorageError
      else if list_all (addable cfg plat) refs then Inr (put_fetched cfg plat name refs s)
      else Inl TypeError)"

subsection \<open>Patterns\<close>

text \<open>
  \<^verbatim>\<open>DYNAMIC_CACHE_PATTERNS\<close>: each pattern is an extension anchored at the end of the
  URL (\<^verbatim>\<open>/\.js$/\<close>, \<^verbatim>\<open>/\.woff2?$/\<close>, ...).
\<close>

definition DYNAMIC_CACHE_PATTERNS :: "(string \<Rightarrow> bool) list" where
  "DYNAMIC_CACHE_PATTERNS =
     [\<lambda>u. ends_with u ''.js'',
      \<lambda>u. ends_with u ''.css'',
      \<lambda>u. ends_with u ''.woff'' \<or> ends_with u ''.woff2'',
      \<lambda>u. ends_with u ''.png'',
      \<lambda>u. ends_with u ''.jpg'',
      \<lambda>u. ends_with u ''.jpeg'',
      \<lambda>u. ends_with u ''.svg'']"

definition shouldCache :: "string \<Rightarrow> bool" where
  "shouldCache u = list_ex (\<lambda>pattern. pattern u) DYNAMIC_CACHE_PATTERNS"

definition is_digit :: "char \<Rightarrow> bool" where
  "is_digit c = (c \<in> set ''0123456789'')"

text \<open>\<^verbatim>\<open>/\?t=\d+/\<close>: the text \<^verbatim>\<open>?t=\<close> followed by a digit, anywhere.\<close>

fun vite_timestamp_query :: "string \<Rightarrow> bool" where
  "vite_timestamp_query [] = False"
| "vite_timestamp_query (c # cs) =
     ((prefix ''?t='' (c # cs) \<and> (case drop 3 (c # cs) of [] \<Rightarrow> False | d # ds \<Rightarrow> is_digit d))
      \<or> vite_timestamp_query cs)"

definition DEV_EXCLUDE_PATTERNS :: "(string \<Rightarrow> bool) list" where
  "DEV_EXCLUDE_PATTERNS =
     [\<lambda>u. str_includes u ''@vite/client'',
      \<lambda>u. str_includes u ''@react-refresh'',
      \<lambda>u. str_includes u ''.hot-update.'',
      \<lambda>u. str_includes u ''/src/'',
      vite_timestamp_query,
      \<lambda>u. str_includes u ''?import'',
      \<lambda>u. str_includes u ''favicon.ico'']"

definition shouldSkip :: "string \<Rightarrow> bool" where
  "shouldSkip u = list_ex (\<lambda>pattern. pattern u) DEV_EXCLUDE_PATTERNS"

subsection \<open>Asset discovery in the entry document\<close>

text \<open>
  The install handler scans the text of \<^verbatim>\<open>/index.html\<close> with two global regular
  expressions, \<^verbatim>\<open>/<script[^>]+src="([^"]+)"/g\<close> and
  \<^verbatim>\<open>/<link[^>]+href="([^"]+\.css)"/g\<close>, and reads the attribute of every match with
  \<^verbatim>\<open>/src="([^"]+)"/\<close> and \<^verbatim>\<open>/href="([^"]+)"/\<close>.  The functions below are
  these expressions with their greedy, backtracking matching written out.
\<close>

definition dquote :: char where
  "dquote = CHR 0x22"

text \<open>
  \<open>quoted_value attr s\<close>: \<open>s\<close> starts with \<open>attr\<close> (such as \<^verbatim>\<open>src="\<close>), then a
  non-empty run of characters other than the double quote, then a double quote; the result
  is the run.
\<close>

definition quoted_value :: "string \<Rightarrow> string \<Rightarrow> string option" where
  "quoted_value attr s =
     (if prefix attr s then
        (let u = drop (length attr) s;
             v = takeWhile (\<lambda>c. c \<noteq> dquote) u
         in if v \<noteq> [] \<and> length v < length u then Some v else None)
      else None)"

text \<open>The length of what the attribute part of a tag pattern matches at the head of \<open>t\<close>.\<close>

definition attr_tail :: "string \<Rightarrow> bool \<Rightarrow> string \<Rightarrow> nat option" where
  "attr_tail attr css t =
     (case quoted_value attr t of
        None \<Rightarrow> None
      | Some v \<Rightarrow>
          if (if css then ends_with v ''.css'' \<and> 5 \<le> length v else True)
          then Some (length attr + length v + 1) else None)"

text \<open>\<^verbatim>\<open>[^>]+\<close> is greedy: the longest run is tried first, then shorter ones.\<close>

fun longest_run :: "(string \<Rightarrow> nat option) \<Rightarrow> string \<Rightarrow> nat \<Rightarrow> nat option" where
  "longest_run tail rest 0 = None"
| "longest_run tail rest (Suc k) =
     (case tail (drop (Suc k) rest) of
        Some len \<Rightarrow> Some (Suc k + len)
      | None \<Rightarrow> longest_run tail rest k)"

definition tag_match_at :: "string \<Rightarrow> string \<Rightarrow> bool \<Rightarrow> string \<Rightarrow> string option" where
  "tag_match_at tag attr css s =
     (if prefix tag s then
        (let rest = drop (length tag) s;
             n = length (takeWhile (\<lambda>c. c \<noteq> CHR ''>'') rest)
         in map_option (\<lambda>len. take (length tag + len) s) (longest_run (attr_tail attr css) rest n))
      else None)"

text \<open>
  \<^verbatim>\<open>text.match(re)\<close> with the \<^verbatim>\<open>g\<close> flag: the matches from left to right, each
  search resuming where the previous match ended (\<open>skip\<close> counts the characters of a
  match still to be passed over).
\<close>

fun match_all :: "(string \<Rightarrow> string option) \<Rightarrow> nat \<Rightarrow> string \<Rightarrow> string list" where
  "match_all m skip [] = []"
| "match_all m (Suc skip) (c # cs) = match_all m skip cs"
| "match_all m 0 (c # cs) =
     (case m (c # cs) of
        Some t \<Rightarrow> t # match_all m (length t - 1) cs
      | None \<Rightarrow> match_all m 0 cs)"

definition src_attr :: string where
  "src_attr = ''src='' @ [dquote]"

definition href_attr :: string where
  "href_attr = ''href='' @ [dquote]"

definition scriptMatches :: "string \<Rightarrow> string list" where
  "scriptMatches text = match_all (tag_match_at ''<script'' src_attr False) 0 text"

definition linkMatches :: "string \<Rightarrow> string list" where
  "linkMatches text = match_all (tag_match_at ''<link'' href_attr True) 0 text"

text \<open>\<^verbatim>\<open>match.match(/src="([^"]+)"/)[1]\<close>: the leftmost occurrence.\<close>

fun first_quoted :: "string \<Rightarrow> string \<Rightarrow> string option" where
  "first_quoted attr [] = None"
| "first_quoted attr (c # cs) =
     (case quoted_value attr (c # cs) of
        Some v \<Rightarrow> Some v
      | None \<Rightarrow> first_quoted attr cs)"

definition normalize_ref :: "string \<Rightarrow> string" where
  "normalize_ref src =
     (if prefix ''./'' src then drop 1 src
      else if prefix ''/'' src then src
      else ''/'' @ src)"

text \<open>
  The two \<^verbatim>\<open>forEach\<close> loops push onto \<^verbatim>\<open>additionalUrls\<close>.  Indexing the
  result of a failed inner match would throw; the surrounding \<^verbatim>\<open>try\<close> then ends the
  scan and the URLs pushed so far stay (second component \<open>False\<close>).
\<close>

fun push_refs :: "string \<Rightarrow> string list \<Rightarrow> string list \<Rightarrow> string list \<times> bool" where
  "push_refs attr [] additionalUrls = (additionalUrls, True)"
| "push_refs attr (m # ms) additionalUrls =
     (case first_quoted attr m of
        None \<Rightarrow> (additionalUrls, False)
      | Some src \<Rightarrow>
          push_refs attr ms
            (if str_includes src ''://'' then additionalUrls
             else additionalUrls @ [normalize_ref src]))"

definition discover_assets :: "string \<Rightarrow> string list" where
  "discover_assets text =
     (case push_refs src_attr (scriptMatches text) [] of
        (urls, completed) \<Rightarrow>
          if completed then fst (push_refs href_attr (linkMatches text) urls) else urls)"

definition additionalUrls :: "config \<Rightarrow> platform \<Rightarrow> string list" where
  "additionalUrls cfg plat =
     (case fetch plat (Request_of cfg ''/index.html'') NoCache of
        NetworkError \<Rightarrow> []
      | Resp indexResponse \<Rightarrow>
          if ok indexResponse
          then discover_assets (case body indexResponse of None \<Rightarrow> [] | Some text \<Rightarrow> text)
          else [])"

section \<open>The cache manager\<close>

text \<open>
  \<^verbatim>\<open>Array.prototype.sort(compare)\<close> is stable; with a consistent comparator its
  result is the stable sorted arrangement, which insertion computes.
\<close>

fun insert_by :: "('a \<Rightarrow> 'a \<Rightarrow> int) \<Rightarrow> 'a \<Rightarrow> 'a list \<Rightarrow> 'a list" where
  "insert_by compare x [] = [x]"
| "insert_by compare x (y # ys) =
     (if compare x y \<le> 0 then x # y # ys else y # insert_by compare x ys)"

definition js_sort :: "('a \<Rightarrow> 'a \<Rightarrow> int) \<Rightarrow> 'a list \<Rightarrow> 'a list" where
  "js_sort compare xs = foldr (insert_by compare) xs []"

definition getAppCaches :: "config \<Rightarrow> platform \<Rightarrow> cache_storage \<Rightarrow> error + string list" where
  "getAppCaches cfg plat s =
     (case caches_keys plat s of
        Inl e \<Rightarrow> Inl e
      | Inr cacheNames \<Rightarrow> Inr (filter (\<lambda>name. prefix (CACHE_PREFIX cfg) name) cacheNames))"

definition currentCacheExists :: "config \<Rightarrow> platform \<Rightarrow> cache_storage \<Rightarrow> error + bool" where
  "currentCacheExists cfg plat s =
     (case caches_keys plat s of
        Inl e \<Rightarrow> Inl e
      | Inr cacheNames \<Rightarrow> Inr (CACHE_NAME cfg \<in> set cacheNames))"

text \<open>The comparator of \<^verbatim>\<open>cleanupOldCaches\<close>: versions in descending order.\<close>

definition compare_versions :: "config \<Rightarrow> platform \<Rightarrow> string \<Rightarrow> string \<Rightarrow> int" where
  "compare_versions cfg plat a b =
     (let versionA = replace_first (CACHE_PREFIX cfg) [] a;
          versionB = replace_first (CACHE_PREFIX cfg) [] b
      in localeCompare plat versionB versionA)"

definition sortedCaches :: "config \<Rightarrow> platform \<Rightarrow> string list \<Rightarrow> string list" where
  "sortedCaches cfg plat appCaches = js_sort (compare_versions cfg plat) appCaches"

definition cachesToDelete :: "config \<Rightarrow> platform \<Rightarrow> string list \<Rightarrow> string list" where
  "cachesToDelete cfg plat appCaches =
     (let sorted = sortedCaches cfg plat appCaches
      in (if length sorted > MAX_CACHES then drop MAX_CACHES sorted else [])
         @ (if \<not> isDevelopment cfg then filter (\<lambda>name. name \<noteq> CACHE_NAME cfg) sorted else []))"

text \<open>\<^verbatim>\<open>Promise.all(names.map(name => caches.delete(name)))\<close>.\<close>

fun delete_all :: "platform \<Rightarrow> string list \<Rightarrow> cache_storage \<Rightarrow> error + cache_storage" where
  "delete_all plat [] s = Inr s"
| "delete_all plat (name # names) s =
     (case caches_delete plat name s of
        Inl e \<Rightarrow> Inl e
      | Inr s' \<Rightarrow> delete_all plat names s')"

definition cleanupOldCaches :: "config \<Rightarrow> platform \<Rightarrow> cache_storage \<Rightarrow> error + cache_storage" where
  "cleanupOldCaches cfg plat s =
     (case getAppCaches cfg plat s of
        Inl e \<Rightarrow> Inl e
      | Inr appCaches \<Rightarrow> delete_all plat (cachesToDelete cfg plat appCaches) s)"

text \<open>
  \<^verbatim>\<open>forceCacheUpdate\<close>: delete the current cache, open it again, bulk-add the static
  list.  The storage it leaves is returned with the error when a step rejects.
\<close>

definition forceCacheUpdate :: "config \<Rightarrow> platform \<Rightarrow> cache_storage \<Rightarrow> error option \<times> cache_storage" where
  "forceCacheUpdate cfg plat s =
     (case caches_delete plat (CACHE_NAME cfg) s of
        Inl e \<Rightarrow> (Some e, s)
      | Inr s1 \<Rightarrow>
          (case caches_open plat (CACHE_NAME cfg) s1 of
             Inl e \<Rightarrow> (Some e, s1)
           | Inr s2 \<Rightarrow>
               (case cache_addAll cfg plat (CACHE_NAME cfg) STATIC_CACHE_URLS s2 of
                  Inl e \<Rightarrow> (Some e, s2)
                | Inr s3 \<Rightarrow> (None, s3))))"

section \<open>The install and activate handlers\<close>

text \<open>The fallback loop of the install handler: one \<^verbatim>\<open>cache.add\<close> per URL, a failure skipped.\<close>

fun add_each :: "config \<Rightarrow> platform \<Rightarrow> string \<Rightarrow> string list \<Rightarrow> cache_storage \<Rightarrow> cache_storage" where
  "add_each cfg plat name [] s = s"
| "add_each cfg plat name (url # urls) s =
     (case cache_add cfg plat name url s of
        Inl individualError \<Rightarrow> add_each cfg plat name urls s
      | Inr s' \<Rightarrow> add_each cfg plat name urls s')"

definition install_static :: "config \<Rightarrow> platform \<Rightarrow> cache_storage \<Rightarrow> cache_storage" where
  "install_static cfg plat s =
     (case cache_addAll cfg plat (CACHE_NAME cfg) STATIC_CACHE_URLS s of
        Inr s' \<Rightarrow> s'
      | Inl addAllError \<Rightarrow> add_each cfg plat (CACHE_NAME cfg) STATIC_CACHE_URLS s)"

fun cache_additional :: "config \<Rightarrow> platform \<Rightarrow> string list \<Rightarrow> cache_storage \<Rightarrow> cache_storage" where
  "cache_additional cfg plat [] s = s"
| "cache_additional cfg plat (url # urls) s =
     cache_additional cfg plat urls
       (case fetch plat (Request_of cfg url) NoCache of
          NetworkError \<Rightarrow> s
        | Resp r \<Rightarrow>
            if ok r then
              (case cache_put plat (CACHE_NAME cfg) (resolve_url cfg url) r s of
                 Inl e \<Rightarrow> s
               | Inr s' \<Rightarrow> s')
            else s)"

definition cache_main_page :: "config \<Rightarrow> platform \<Rightarrow> cache_storage \<Rightarrow> cache_storage" where
  "cache_main_page cfg plat s =
     (case fetch plat (Request_of cfg ''/index.html'') NoCache of
        NetworkError \<Rightarrow> s
      | Resp mainPageResponse \<Rightarrow>
          if ok mainPageResponse then
            (case cache_put plat (CACHE_NAME cfg) (resolve_url cfg ''/'') mainPageResponse s of
               Inl e \<Rightarrow> s
             | Inr s1 \<Rightarrow>
                 (case cache_put plat (CACHE_NAME cfg) (resolve_url cfg ''/index.html'') mainPageResponse s1 of
                    Inl e \<Rightarrow> s1
                  | Inr s2 \<Rightarrow> s2))
          else s)"

definition cache_manifest :: "config \<Rightarrow> platform \<Rightarrow> cache_storage \<Rightarrow> cache_storage" where
  "cache_manifest cfg plat s =
     (case fetch plat (Request_of cfg ''/manifest.json'') NoCache of
        NetworkError \<Rightarrow> s
      | Resp manifestResponse \<Rightarrow>
          if ok manifestResponse then
            (case cache_put plat (CACHE_NAME cfg) (resolve_url cfg ''/manifest.json'') manifestResponse s of
               Inl e \<Rightarrow> s
             | Inr s' \<Rightarrow> s')
          else s)"

text \<open>
  The work of the install handler up to the prune, on the storage in which the current
  cache has been opened.
\<close>

definition install_populate :: "config \<Rightarrow> platform \<Rightarrow> cache_storage \<Rightarrow> cache_storage" where
  "install_populate cfg plat s0 =
     (let s1 = install_static cfg plat s0;
          s2 = cache_additional cfg plat (additionalUrls cfg plat) s1;
          s3 = cache_main_page cfg plat s2
      in cache_manifest cfg plat s3)"

text \<open>
  How the promise handed to \<^verbatim>\<open>event.waitUntil\<close> ends: the development worker
  returns before any caching (\<open>DevSkip\<close>); \<open>InstallError\<close> is the outer
  \<^verbatim>\<open>catch\<close>, which logs and calls \<^verbatim>\<open>skipWaiting\<close>, so that the promise
  resolves in every case.
\<close>

datatype install_outcome = DevSkip | Installed | InstallError error

definition install_handler :: "config \<Rightarrow> platform \<Rightarrow> cache_storage \<Rightarrow> install_outcome \<times> cache_storage" where
  "install_handler cfg plat s =
     (if isDevelopment cfg then (DevSkip, s)
      else
        (case caches_open plat (CACHE_NAME cfg) s of
           Inl e \<Rightarrow> (InstallError e, s)
         | Inr s0 \<Rightarrow>
             (let s4 = install_populate cfg plat s0
              in case cleanupOldCaches cfg plat s4 of
                   Inl e \<Rightarrow> (InstallError e, s4)
                 | Inr s5 \<Rightarrow> (Installed, s5))))"

record activated_message =
  am_version :: string
  am_cacheName :: string
  am_isDevelopment :: bool

text \<open>
  The activate handler on a worker with \<open>clients\<close> open pages: prune, then one
  \<^verbatim>\<open>SW_ACTIVATED\<close> message per client; nothing is posted when the prune throws.
\<close>

definition activate_handler ::
  "config \<Rightarrow> platform \<Rightarrow> nat \<Rightarrow> cache_storage \<Rightarrow> cache_storage \<times> activated_message list" where
  "activate_handler cfg plat clients s =
     (case cleanupOldCaches cfg plat s of
        Inl e \<Rightarrow> (s, [])
      | Inr s' \<Rightarrow>
          (case getAppCaches cfg plat s' of
             Inl e \<Rightarrow> (s', [])
           | Inr appCaches \<Rightarrow>
               (s', replicate clients
                      \<lparr>am_version = CACHE_VERSION cfg, am_cacheName = CACHE_NAME cfg,
                       am_isDevelopment = isDevelopment cfg\<rparr>)))"

section \<open>The fetch handler\<close>

text \<open>
  The handler either returns without calling \<^verbatim>\<open>event.respondWith\<close>, so that the
  browser performs the request itself (\<open>PassThrough\<close>), or answers with a response.
  Work it starts without awaiting it is returned as a list of detached tasks; \<open>run_task\<close>
  is what such a task does to the storage when it runs, every failure swallowed.
\<close>

datatype outcome = PassThrough | Respond response

datatype task =
    OpenThenPut string response
  | HandlePut string response
  | RefreshShell
  | Revalidate request

definition swallow :: "cache_storage \<Rightarrow> error + cache_storage \<Rightarrow> cache_storage" where
  "swallow s res = (case res of Inl e \<Rightarrow> s | Inr s' \<Rightarrow> s')"

fun run_task :: "config \<Rightarrow> platform \<Rightarrow> task \<Rightarrow> cache_storage \<Rightarrow> cache_storage" where
  "run_task cfg plat (OpenThenPut u r) s =
     (case caches_open plat (CACHE_NAME cfg) s of
        Inl e \<Rightarrow> s
      | Inr s1 \<Rightarrow> swallow s1 (cache_put plat (CACHE_NAME cfg) u r s1))"
| "run_task cfg plat (HandlePut u r) s = swallow s (cache_put plat (CACHE_NAME cfg) u r s)"
| "run_task cfg plat RefreshShell s =
     (case fetch plat (Request_of cfg ''/index.html'') NoOptions of
        NetworkError \<Rightarrow> s
      | Resp r \<Rightarrow>
          if ok r then
            (case caches_open plat (CACHE_NAME cfg) s of
               Inl e \<Rightarrow> s
             | Inr s1 \<Rightarrow>
                 (let s2 = swallow s1 (cache_put plat (CACHE_NAME cfg) (resolve_url cfg ''/'') r s1)
                  in swallow s2 (cache_put plat (CACHE_NAME cfg) (resolve_url cfg ''/index.html'') r s2)))
          else s)"
| "run_task cfg plat (Revalidate req) s =
     (case fetch plat req NoOptions of
        NetworkError \<Rightarrow> s
      | Resp r \<Rightarrow>
          if status r = 200 \<and> rtype r = Basic \<and> shouldCache (req_url req) then
            (case caches_open plat (CACHE_NAME cfg) s of
               Inl e \<Rightarrow> s
             | Inr s1 \<Rightarrow> swallow s1 (cache_put plat (CACHE_NAME cfg) (req_url req) r s1))
          else s)"

definition run_tasks :: "config \<Rightarrow> platform \<Rightarrow> task list \<Rightarrow> cache_storage \<Rightarrow> cache_storage" where
  "run_tasks cfg plat ts s = fold (run_task cfg plat) ts s"

text \<open>The responses the handler builds itself.\<close>

definition not_found_text :: response where
  "not_found_text = new_Response (Some ''Not Found'') 404 [] []"

definition favicon_not_found :: response where
  "favicon_not_found = new_Response None 404 ''Not Found'' []"

definition image_not_found :: response where
  "image_not_found = new_Response None 404 ''Image Not Found'' []"

definition service_unavailable :: response where
  "service_unavailable = new_Response (Some ''Service Unavailable'') 503 ''Service Unavailable'' []"

definition bare_not_found :: response where
  "bare_not_found = new_Response None 404 [] []"

definition dev_offline_response :: "config \<Rightarrow> response" where
  "dev_offline_response cfg =
     new_Response (Some (DEV_OFFLINE_PAGE cfg)) 503 [] [(''Content-Type'', ''text/html'')]"

definition offline_response :: "config \<Rightarrow> response" where
  "offline_response cfg =
     new_Response (Some (OFFLINE_PAGE cfg)) 200 [] [(''Content-Type'', ''text/html'')]"

definition default_manifest_response :: "config \<Rightarrow> response" where
  "default_manifest_response cfg =
     new_Response (Some (DEFAULT_MANIFEST cfg)) 200 [] [(''Content-Type'', ''application/json'')]"

definition typed_fallback :: "request \<Rightarrow> response" where
  "typed_fallback req =
     (if req_destination req = ''image'' then image_not_found else service_unavailable)"

definition is_passthrough_path :: "string \<Rightarrow> bool" where
  "is_passthrough_path pathname = (pathname = ''/robots.txt'' \<or> pathname = ''/sitemap.xml'')"

text \<open>The answer for \<^verbatim>\<open>/robots.txt\<close> and \<^verbatim>\<open>/sitemap.xml\<close>.\<close>

definition static_file_response :: "platform \<Rightarrow> request \<Rightarrow> response" where
  "static_file_response plat req =
     (case fetch plat req NoOptions of
        NetworkError \<Rightarrow> not_found_text
      | Resp r \<Rightarrow> if ok r then r else not_found_text)"

definition favicon_response :: "platform \<Rightarrow> request \<Rightarrow> response" where
  "favicon_response plat req =
     (case fetch plat req NoOptions of
        NetworkError \<Rightarrow> favicon_not_found
      | Resp r \<Rightarrow> r)"

definition is_favicon :: "request \<Rightarrow> bool" where
  "is_favicon req =
     (str_includes (req_url req) ''favicon.ico'' \<or> str_includes (req_url req) ''favicon.svg'')"

type_synonym answer = "response \<times> cache_storage \<times> task list"

subsection \<open>Development\<close>

definition dev_navigation :: "config \<Rightarrow> platform \<Rightarrow> request \<Rightarrow> response" where
  "dev_navigation cfg plat req =
     (case fetch plat req NoCache of
        NetworkError \<Rightarrow> dev_offline_response cfg
      | Resp r \<Rightarrow> if ok r then r else dev_offline_response cfg)"

definition dev_asset :: "config \<Rightarrow> platform \<Rightarrow> cache_storage \<Rightarrow> request \<Rightarrow> answer" where
  "dev_asset cfg plat s req =
     (if is_favicon req then (favicon_response plat req, s, [])
      else
        (case fetch plat req NoOptions of
           Resp r \<Rightarrow>
             (r, s,
              if status r = 200 \<and> rtype r = Basic \<and> shouldCache (req_url req)
              then [OpenThenPut (req_url req) r] else [])
         | NetworkError \<Rightarrow>
             (case caches_match plat s (req_url req) of
                Inl cacheError \<Rightarrow> (bare_not_found, s, [])
              | Inr (Some cachedResponse) \<Rightarrow> (cachedResponse, s, [])
              | Inr None \<Rightarrow> (typed_fallback req, s, []))))"

subsection \<open>Production\<close>

text \<open>
  The manifest branch: \<open>None\<close> when the branch does not return (the URL is not a manifest
  URL, or the network answered with a response that is not ok) and the handler goes on
  with the checks that follow.
\<close>

definition prod_manifest :: "config \<Rightarrow> platform \<Rightarrow> cache_storage \<Rightarrow> request \<Rightarrow> (error + answer) option" where
  "prod_manifest cfg plat s req =
     (if str_includes (req_url req) ''manifest.json'' then
        (case caches_match plat s (resolve_url cfg ''/manifest.json'') of
           Inl e \<Rightarrow> Some (Inl e)
         | Inr (Some cachedManifest) \<Rightarrow> Some (Inr (cachedManifest, s, []))
         | Inr None \<Rightarrow>
             (case fetch plat (Request_of cfg ''/manifest.json'') NoOptions of
                NetworkError \<Rightarrow> Some (Inr (default_manifest_response cfg, s, []))
              | Resp r \<Rightarrow>
                  if ok r then
                    (case caches_open plat (CACHE_NAME cfg) s of
                       Inl e \<Rightarrow> Some (Inr (default_manifest_response cfg, s, []))
                     | Inr s1 \<Rightarrow>
                         Some (Inr (r, s1, [HandlePut (resolve_url cfg ''/manifest.json'') r])))
                  else None))
      else None)"

definition prod_navigation :: "config \<Rightarrow> platform \<Rightarrow> cache_storage \<Rightarrow> error + answer" where
  "prod_navigation cfg plat s =
     (case caches_match plat s (resolve_url cfg ''/index.html'') of
        Inl e \<Rightarrow> Inl e
      | Inr viaIndex \<Rightarrow>
          (case (case viaIndex of
                   Some r \<Rightarrow> Inr (Some r)
                 | None \<Rightarrow> caches_match plat s (resolve_url cfg ''/'')) of
             Inl e \<Rightarrow> Inl e
           | Inr (Some cachedResponse) \<Rightarrow> Inr (cachedResponse, s, [RefreshShell])
           | Inr None \<Rightarrow>
               (case fetch plat (Request_of cfg ''/index.html'') (NoCacheTimeout 3000) of
                  NetworkError \<Rightarrow> Inr (offline_response cfg, s, [])
                | Resp r \<Rightarrow>
                    if ok r then
                      (case caches_open plat (CACHE_NAME cfg) s of
                         Inl e \<Rightarrow> Inr (offline_response cfg, s, [])
                       | Inr s1 \<Rightarrow>
                           Inr (r, s1, [HandlePut (resolve_url cfg ''/'') r,
                                        HandlePut (resolve_url cfg ''/index.html'') r]))
                    else Inr (offline_response cfg, s, []))))"

definition prod_asset :: "config \<Rightarrow> platform \<Rightarrow> cache_storage \<Rightarrow> request \<Rightarrow> error + answer" where
  "prod_asset cfg plat s req =
     (case caches_match plat s (req_url req) of
        Inl e \<Rightarrow> Inl e
      | Inr (Some cachedResponse) \<Rightarrow> Inr (cachedResponse, s, [Revalidate req])
      | Inr None \<Rightarrow>
          (case fetch plat req NoOptions of
             Resp r \<Rightarrow>
               Inr (r, s,
                    if status r = 200 \<and> rtype r = Basic \<and> shouldCache (req_url req)
                    then [OpenThenPut (req_url req) r] else [])
           | NetworkError \<Rightarrow>
               (case caches_match plat s (req_url req) of
                  Inl e \<Rightarrow> Inl e
                | Inr (Some fallbackCache) \<Rightarrow> Inr (fallbackCache, s, [])
                | Inr None \<Rightarrow>
                    if req_mode req = ''navigate'' then
                      (case caches_match plat s (resolve_url cfg ''/index.html'') of
                         Inl e \<Rightarrow> Inl e
                       | Inr (Some indexCache) \<Rightarrow> Inr (indexCache, s, [])
                       | Inr None \<Rightarrow> Inr (typed_fallback req, s, []))
                    else Inr (typed_fallback req, s, []))))"

text \<open>The body of the \<^verbatim>\<open>try\<close> block of the production branch.\<close>

definition prod_try :: "config \<Rightarrow> platform \<Rightarrow> cache_storage \<Rightarrow> request \<Rightarrow> error + answer" where
  "prod_try cfg plat s req =
     (if is_passthrough_path (url_pathname (req_url req)) then
        Inr (static_file_response plat req, s, [])
      else if is_favicon req then Inr (favicon_response plat req, s, [])
      else
        (case prod_manifest cfg plat s req of
           Some result \<Rightarrow> result
         | None \<Rightarrow>
             if req_mode req = ''navigate'' then prod_navigation cfg plat s
             else prod_asset cfg plat s req))"

text \<open>The production branch with its outer \<^verbatim>\<open>catch\<close>: one more try on the network.\<close>

definition prod_respond :: "config \<Rightarrow> platform \<Rightarrow> cache_storage \<Rightarrow> request \<Rightarrow> answer" where
  "prod_respond cfg plat s req =
     (case prod_try cfg plat s req of
        Inr result \<Rightarrow> result
      | Inl cacheError \<Rightarrow>
          (case fetch plat req NoOptions of
             Resp r \<Rightarrow> (r, s, [])
           | NetworkError \<Rightarrow> (service_unavailable, s, [])))"

subsection \<open>The handler\<close>

definition fetch_handler ::
  "config \<Rightarrow> platform \<Rightarrow> cache_storage \<Rightarrow> request \<Rightarrow> outcome \<times> cache_storage \<times> task list" where
  "fetch_handler cfg plat s req =
     (if req_method req \<noteq> ''GET'' then (PassThrough, s, [])
      else if \<not> prefix (origin (self_location cfg)) (req_url req) then (PassThrough, s, [])
      else if is_passthrough_path (url_pathname (req_url req)) then
        (Respond (static_file_response plat req), s, [])
      else if isDevelopment cfg then
        (if shouldSkip (req_url req) then (PassThrough, s, [])
         else if req_mode req = ''navigate'' then (Respond (dev_navigation cfg plat req), s, [])
         else (case dev_asset cfg plat s req of (r, s', ts) \<Rightarrow> (Respond r, s', ts)))
      else (case prod_respond cfg plat s req of (r, s', ts) \<Rightarrow> (Respond r, s', ts)))"

text \<open>A fetch event with its detached work run to the end: the answer and the storage left.\<close>

definition fetch_event :: "config \<Rightarrow> platform \<Rightarrow> cache_storage \<Rightarrow> request \<Rightarrow> outcome \<times> cache_storage" where
  "fetch_event cfg plat s req =
     (case fetch_handler cfg plat s req of (out, s', ts) \<Rightarrow> (out, run_tasks cfg plat ts s'))"

section \<open>The message handler\<close>

record cache_info =
  currentVersion :: string
  currentCacheName :: string
  currentCacheExistsI :: bool
  appCaches :: "string list"
  isDevelopmentI :: bool

datatype reply_payload =
    ClearedCaches nat
  | CacheVersionOf string
  | Info cache_info
  | ErrorMessage string

record reply =
  success :: bool
  payload :: reply_payload

text \<open>
  \<^verbatim>\<open>event.data\<close> is absent or an object whose \<^verbatim>\<open>type\<close> is absent or a string;
  \<open>has_port\<close> tells whether \<^verbatim>\<open>event.ports[0]\<close> exists.
\<close>

record message =
  mtype :: "string option"

record message_event =
  data :: "message option"
  has_port :: bool

definition postMessage :: "message_event \<Rightarrow> reply \<Rightarrow> reply option" where
  "postMessage ev r = (if has_port ev then Some r else None)"

definition failure :: "error \<Rightarrow> reply" where
  "failure e = \<lparr>success = False, payload = ErrorMessage (error_message e)\<rparr>"

text \<open>The result: the storage left, the reply posted (if any), whether \<^verbatim>\<open>skipWaiting\<close> was called.\<close>

definition message_handler ::
  "config \<Rightarrow> platform \<Rightarrow> cache_storage \<Rightarrow> message_event \<Rightarrow> cache_storage \<times> reply option \<times> bool" where
  "message_handler cfg plat s ev =
     (case data ev of
        None \<Rightarrow> (s, None, False)
      | Some d \<Rightarrow>
          (case mtype d of
             None \<Rightarrow> (s, None, False)
           | Some ty \<Rightarrow>
               if ty = [] then (s, None, False)
               else if ty = ''SKIP_WAITING'' then (s, None, True)
               else if ty = ''CLEAR_CACHE'' then
                 (case caches_keys plat s of
                    Inl e \<Rightarrow> (s, postMessage ev (failure e), False)
                  | Inr cacheNames \<Rightarrow>
                      (case delete_all plat cacheNames s of
                         Inl e \<Rightarrow> (s, postMessage ev (failure e), False)
                       | Inr s' \<Rightarrow>
                           (s', postMessage ev
                                  \<lparr>success = True, payload = ClearedCaches (length cacheNames)\<rparr>,
                            False)))
               else if ty = ''CLEAR_APP_CACHE'' then
                 (case getAppCaches cfg plat s of
                    Inl e \<Rightarrow> (s, postMessage ev (failure e), False)
                  | Inr names \<Rightarrow>
                      (case delete_all plat names s of
                         Inl e \<Rightarrow> (s, postMessage ev (failure e), False)
                       | Inr s' \<Rightarrow>
                           (s', postMessage ev
                                  \<lparr>success = True, payload = ClearedCaches (length names)\<rparr>,
                            False)))
               else if ty = ''FORCE_UPDATE'' then
                 (case forceCacheUpdate cfg plat s of
                    (Some e, s') \<Rightarrow> (s', postMessage ev (failure e), False)
                  | (None, s') \<Rightarrow>
                      (case cleanupOldCaches cfg plat s' of
                         Inl e \<Rightarrow> (s', postMessage ev (failure e), False)
                       | Inr s'' \<Rightarrow>
                           (s'', postMessage ev
                                   \<lparr>success = True, payload = CacheVersionOf (CACHE_VERSION cfg)\<rparr>,
                            False)))
               else if ty = ''GET_CACHE_INFO'' then
                 (case getAppCaches cfg plat s of
                    Inl e \<Rightarrow> (s, postMessage ev (failure e), False)
                  | Inr names \<Rightarrow>
                      (case currentCacheExists cfg plat s of
                         Inl e \<Rightarrow> (s, postMessage ev (failure e), False)
                       | Inr currentExists \<Rightarrow>
                           (s, postMessage ev
                                 \<lparr>success = True,
                                  payload = Info \<lparr>currentVersion = CACHE_VERSION cfg,
                                                  currentCacheName = CACHE_NAME cfg,
                                                  currentCacheExistsI = currentExists,
                                                  appCaches = names,
                                                  isDevelopmentI = isDevelopment cfg\<rparr>\<rparr>,
                              False)))
               else (s, None, False)))"

section \<open>The page-side manager\<close>

text \<open>
  \<^verbatim>\<open>PWAManager\<close> sends a command to the active worker through a message channel
  and races the reply against a timer.  Time is counted in milliseconds from the call.
  The page is a record: what the browser supports, the registration the manager holds,
  the reply the worker will send (after how long, and what; \<open>None\<close> when no reply ever
  arrives), the cache storage as the page sees it, and how long one of its operations
  takes.
\<close>

record page =
  serviceWorkerSupported :: bool
  hasRegistration :: bool
  hasActiveWorker :: bool
  worker_reply :: "(nat \<times> reply) option"
  page_caches :: cache_storage
  page_cache_ok :: bool
  cache_op_latency :: nat

datatype 'a settled = Resolved nat 'a | Rejected nat string

definition timeout_message :: string where
  "timeout_message = ''Service Worker communication timeout''"

text \<open>
  The promise around \<^verbatim>\<open>setTimeout(() => reject(...), ms)\<close> and
  \<^verbatim>\<open>port1.onmessage\<close>: the reply settles it when it arrives before the timer fires.
\<close>

definition await_reply :: "nat \<Rightarrow> (nat \<times> reply) option \<Rightarrow> reply settled" where
  "await_reply ms r =
     (case r of
        None \<Rightarrow> Rejected ms timeout_message
      | Some (t, d) \<Rightarrow> if t < ms then Resolved t d else Rejected ms timeout_message)"

text \<open>A result: the value the method's promise resolves to, when, and the storage left.\<close>

type_synonym 'a result = "'a \<times> nat \<times> cache_storage"

definition is_app_cache_name :: "string \<Rightarrow> bool" where
  "is_app_cache_name name = (str_includes name ''nuwault'' \<or> str_includes name ''Nuwault'')"

definition forceCacheUpdate_page :: "page \<Rightarrow> bool result" where
  "forceCacheUpdate_page pg =
     (if \<not> serviceWorkerSupported pg then (False, 0, page_caches pg)
      else if hasRegistration pg \<and> hasActiveWorker pg then
        (case await_reply 15000 (worker_reply pg) of
           Resolved t d \<Rightarrow> (success d, t, page_caches pg)
         | Rejected t msg \<Rightarrow> (False, t, page_caches pg))
      else (False, 0, page_caches pg))"

definition clearAppCache :: "page \<Rightarrow> bool result" where
  "clearAppCache pg =
     (if \<not> serviceWorkerSupported pg then (False, 0, page_caches pg)
      else if hasRegistration pg \<and> hasActiveWorker pg then
        (case await_reply 10000 (worker_reply pg) of
           Resolved t d \<Rightarrow> (success d, t, page_caches pg)
         | Rejected t msg \<Rightarrow> (False, t, page_caches pg))
      else if page_cache_ok pg then
        (let victims = filter is_app_cache_name (map fst (page_caches pg))
         in (True,
             cache_op_latency pg + (if victims = [] then 0 else cache_op_latency pg),
             filter (\<lambda>(n, c). n \<notin> set victims) (page_caches pg)))
      else (False, cache_op_latency pg, page_caches pg))"

text \<open>
  The \<^verbatim>\<open>catch\<close> block of \<^verbatim>\<open>clearCache\<close>, entered at time \<open>t\<close>: list the caches
  and delete them one after the other.
\<close>

definition clearCache_fallback :: "page \<Rightarrow> nat \<Rightarrow> bool result" where
  "clearCache_fallback pg t =
     (if page_cache_ok pg then
        (True, t + cache_op_latency pg + length (page_caches pg) * cache_op_latency pg, [])
      else (False, t + cache_op_latency pg, page_caches pg))"

definition clearCache :: "page \<Rightarrow> bool result" where
  "clearCache pg =
     (if \<not> serviceWorkerSupported pg then (False, 0, page_caches pg)
      else if hasRegistration pg \<and> hasActiveWorker pg then
        (case await_reply 2000 (worker_reply pg) of
           Resolved t d \<Rightarrow> (success d, t, page_caches pg)
         | Rejected t msg \<Rightarrow> clearCache_fallback pg t)
      else if cache_op_latency pg < 1000 then
        (if page_cache_ok pg then
           (True,
            cache_op_latency pg + (if page_caches pg = [] then 0 else min (cache_op_latency pg) 500),
            [])
         else clearCache_fallback pg (cache_op_latency pg))
      else clearCache_fallback pg 1000)"

datatype cache_status =
    Unsupported
  | Status bool "cache_info option" "(string \<times> nat \<times> bool) list"
  | FallbackStatus string "string list"
  | FailedStatus string

text \<open>The \<^verbatim>\<open>catch\<close> block of \<^verbatim>\<open>getCacheStatus\<close>, entered at time \<open>t\<close>.\<close>

definition getCacheStatus_fallback :: "page \<Rightarrow> nat \<Rightarrow> string \<Rightarrow> cache_status result" where
  "getCacheStatus_fallback pg t msg =
     (if page_cache_ok pg then
        (FallbackStatus msg (map fst (page_caches pg)), t + cache_op_latency pg, page_caches pg)
      else (FailedStatus (error_message StorageError), t + cache_op_latency pg, page_caches pg))"

definition getCacheStatus :: "page \<Rightarrow> cache_status result" where
  "getCacheStatus pg =
     (if \<not> serviceWorkerSupported pg \<or> \<not> hasRegistration pg then (Unsupported, 0, page_caches pg)
      else
        (case await_reply 5000 (if hasActiveWorker pg then worker_reply pg else None) of
           Rejected t msg \<Rightarrow> getCacheStatus_fallback pg t msg
         | Resolved t d \<Rightarrow>
             if success d then
               (if page_cache_ok pg then
                  (Status (hasActiveWorker pg)
                     (case payload d of Info i \<Rightarrow> Some i | _ \<Rightarrow> None)
                     (map (\<lambda>(name, c). (name, length c, is_app_cache_name name)) (page_caches pg)),
                   t + cache_op_latency pg + (if page_caches pg = [] then 0 else 2 * cache_op_latency pg),
                   page_caches pg)
                else getCacheStatus_fallback pg (t + cache_op_latency pg) (error_message StorageError))
             else
               getCacheStatus_fallback pg t
                 (case payload d of
                    ErrorMessage m \<Rightarrow> if m = [] then ''Failed to get cache info'' else m
                  | _ \<Rightarrow> ''Failed to get cache info'')))"

section \<open>Notions used in the statements\<close>

text \<open>
  The origin string of the worker is well formed when it has a scheme separator, nothing
  of a path or a query after it, and no fragment mark at all.
\<close>

definition wf_origin :: "string \<Rightarrow> bool" where
  "wf_origin org =
     (str_includes org ''://'' \<and> list_all (\<lambda>c. \<not> path_start c) (after_scheme org)
      \<and> list_all (\<lambda>c. c \<noteq> CHR ''#'') org)"

text \<open>A URL is same-origin with the worker when its origin is the worker's origin.\<close>

definition same_origin :: "config \<Rightarrow> string \<Rightarrow> bool" where
  "same_origin cfg u = (url_origin u = origin (self_location cfg))"

text \<open>The generations the application owns, and the entry of a cache under a key.\<close>

definition owned :: "config \<Rightarrow> cache_storage \<Rightarrow> string list" where
  "owned cfg s = filter (\<lambda>name. prefix (CACHE_PREFIX cfg) name) (map fst s)"

definition entry :: "cache_storage \<Rightarrow> string \<Rightarrow> string \<Rightarrow> response option" where
  "entry s name key = (case map_of s name of None \<Rightarrow> None | Some c \<Rightarrow> map_of c key)"

definition stored_keys :: "cache_storage \<Rightarrow> string list" where
  "stored_keys s = concat (map (\<lambda>(name, c). map fst c) s)"

definition no_passthrough_entries :: "cache_storage \<Rightarrow> bool" where
  "no_passthrough_entries s =
     list_all (\<lambda>key. \<not> is_passthrough_path (url_pathname key)) (stored_keys s)"

text \<open>A comparator is consistent when it is total and transitive as an order.\<close>

definition consistent_compare :: "('a \<Rightarrow> 'a \<Rightarrow> int) \<Rightarrow> bool" where
  "consistent_compare compare =
     ((\<forall>a b. compare a b \<le> 0 \<or> compare b a \<le> 0) \<and>
      (\<forall>a b c. compare a b \<le> 0 \<longrightarrow> compare b c \<le> 0 \<longrightarrow> compare a c \<le> 0))"

text \<open>
  The events of one worker, each with the platform as it is while the event is handled,
  and the storage each leaves once its detached work has run.
\<close>

datatype event =
    FetchEvent platform request
  | InstallEvent platform
  | ActivateEvent platform nat
  | MessageEvent platform message_event

fun step :: "config \<Rightarrow> event \<Rightarrow> cache_storage \<Rightarrow> cache_storage" where
  "step cfg (FetchEvent plat req) s = snd (fetch_event cfg plat s req)"
| "step cfg (InstallEvent plat) s = snd (install_handler cfg plat s)"
| "step cfg (ActivateEvent plat clients) s = fst (activate_handler cfg plat clients s)"
| "step cfg (MessageEvent plat ev) s = fst (message_handler cfg plat s ev)"

definition run_events :: "config \<Rightarrow> event list \<Rightarrow> cache_storage \<Rightarrow> cache_storage" where
  "run_events cfg evs s = fold (step cfg) evs s"


text \<open>
  A URL whose cache key has no passthrough path, and a detached task that writes under
  such keys only.
\<close>

definition safe_url :: "string \<Rightarrow> bool" where
  "safe_url u = (\<not> is_passthrough_path (url_pathname (request_key u)))"

fun safe_task :: "task \<Rightarrow> bool" where
  "safe_task (OpenThenPut u r) = safe_url u"
| "safe_task (HandlePut u r) = safe_url u"
| "safe_task RefreshShell = True"
| "safe_task (Revalidate req) = safe_url (req_url req)"

text \<open>An answer that leaves the storage free of passthrough entries and starts only safe tasks.\<close>

definition clean_answer :: "'a \<times> cache_storage \<times> task list \<Rightarrow> bool" where
  "clean_answer a = (case a of (r, s', ts) \<Rightarrow> no_passthrough_entries s' \<and> list_all safe_task ts)"

section \<open>Sample data\<close>

text \<open>
  A production and a development worker, a collation by code units, and some responses,
  used to instantiate the statements below.
\<close>

definition prod_config :: config where
  "prod_config =
     \<lparr>APP_NAME = ''nuwault'', APP_VERSION = ''1.2.0-ab12cd34'',
      self_location = \<lparr>protocol = ''https:'', hostname = ''nuwault.com'', port = [],
                        origin = ''https://nuwault.com''\<rparr>,
      DEV_OFFLINE_PAGE = ''<h1>Dev Server Offline</h1>'',
      OFFLINE_PAGE = ''<h1>App not cached yet</h1>'',
      DEFAULT_MANIFEST = ''{}''\<rparr>"

definition dev_config :: config where
  "dev_config =
     \<lparr>APP_NAME = ''nuwault'', APP_VERSION = ''1.0.0-slzwjk-ab12cd34'',
      self_location = \<lparr>protocol = ''http:'', hostname = ''localhost'', port = ''5173'',
                        origin = ''http://localhost:5173''\<rparr>,
      DEV_OFFLINE_PAGE = ''<h1>Dev Server Offline</h1>'',
      OFFLINE_PAGE = ''<h1>App not cached yet</h1>'',
      DEFAULT_MANIFEST = ''{}''\<rparr>"

fun code_unit_compare :: "string \<Rightarrow> string \<Rightarrow> int" where
  "code_unit_compare [] [] = 0"
| "code_unit_compare [] (y # ys) = - 1"
| "code_unit_compare (x # xs) [] = 1"
| "code_unit_compare (x # xs) (y # ys) =
     (if (of_char x :: nat) < of_char y then - 1
      else if (of_char y :: nat) < of_char x then 1
      else code_unit_compare xs ys)"

definition page_response :: "string \<Rightarrow> response" where
  "page_response text =
     \<lparr>status = 200, statusText = ''OK'', rtype = Basic, headers = [], body = Some text\<rparr>"

definition status_response :: "nat \<Rightarrow> response_type \<Rightarrow> response" where
  "status_response st ty =
     \<lparr>status = st, statusText = [], rtype = ty, headers = [], body = None\<rparr>"

text \<open>A network on which every request is answered with the same response, and one that is down.\<close>

definition online :: "response \<Rightarrow> platform" where
  "online r =
     \<lparr>fetch = (\<lambda>req opts. Resp r), cache_api_ok = True,
      put_accepts = (\<lambda>r. status r \<noteq> 206), localeCompare = code_unit_compare\<rparr>"

definition offline :: platform where
  "offline =
     \<lparr>fetch = (\<lambda>req opts. NetworkError), cache_api_ok = True,
      put_accepts = (\<lambda>r. status r \<noteq> 206), localeCompare = code_unit_compare\<rparr>"

text \<open>A network on which the requests for the URLs of \<open>missing\<close> get a 404 answer.\<close>

definition online_except :: "string list \<Rightarrow> response \<Rightarrow> platform" where
  "online_except missing r =
     \<lparr>fetch = (\<lambda>req opts. if req_url req \<in> set missing then Resp (status_response 404 Basic) else Resp r),
      cache_api_ok = True,
      put_accepts = (\<lambda>r. status r \<noteq> 206), localeCompare = code_unit_compare\<rparr>"

definition get_request :: "string \<Rightarrow> string \<Rightarrow> string \<Rightarrow> request" where
  "get_request u md dest =
     \<lparr>req_url = u, req_method = ''GET'', req_mode = md, req_destination = dest\<rparr>"

definition sample_store :: cache_storage where
  "sample_store =
     [(''nuwault-v1.1.0-0f0f0f0f'', [(''https://nuwault.com/'', page_response ''old'')]),
      (''third-party'', []),
      (''nuwault-v1.2.0-ab12cd34'', [(''https://nuwault.com/'', page_response ''new'')])]"

definition broken_storage :: platform where
  "broken_storage =
     \<lparr>fetch = (\<lambda>req opts. NetworkError), cache_api_ok = False,
      put_accepts = (\<lambda>r. status r \<noteq> 206), localeCompare = code_unit_compare\<rparr>"

definition old_store :: cache_storage where
  "old_store =
     [(''nuwault-v1.1.0-0f0f0f0f'', [(''https://nuwault.com/'', page_response ''old'')]),
      (''third-party'', [])]"

definition dev_store :: cache_storage where
  "dev_store =
     [(''nuwault-v1.0.0-slzwa1-00000001'', []),
      (''nuwault-v1.0.0-slzwb2-00000002'', []),
      (''third-party'', []),
      (''nuwault-v1.0.0-slzwc3-00000003'', []),
      (''nuwault-v1.0.0-slzwd4-00000004'', []),
      (''nuwault-v1.0.0-slzwe5-00000005'', []),
      (''nuwault-v1.0.0-slzwf6-00000006'', []),
      (''nuwault-v1.0.0-slzwjk-ab12cd34'', [])]"

definition navigation_request :: request where
  "navigation_request = get_request ''https://nuwault.com/settings'' ''navigate'' ''document''"


definition app_page :: string where
  "app_page =
     ''<link rel='' @ [dquote] @ ''stylesheet'' @ [dquote] @ '' href='' @ [dquote] @ ''/assets/app.css'' @ [dquote] @ ''>''
     @ ''<script type='' @ [dquote] @ ''module'' @ [dquote] @ '' src='' @ [dquote] @ ''/assets/app.js'' @ [dquote] @ ''></script>''"



text \<open>A page whose active worker never replies.\<close>

definition silent_page :: page where
  "silent_page =
     \<lparr>serviceWorkerSupported = True, hasRegistration = True, hasActiveWorker = True,
      worker_reply = None, page_caches = sample_store, page_cache_ok = True,
      cache_op_latency = 20\<rparr>"

section \<open>Properties of the version string\<close>








section \<open>Properties of the cache storage and the message handler\<close>

lemma delete_all_ok:
  "cache_api_ok plat \<Longrightarrow> delete_all plat names s = Inr (filter (\<lambda>(n, c). n \<notin> set names) s)"
proof (induction names arbitrary: s)
  case Nil
  then show ?case by simp
next
  case (Cons name names)
  have "filter (\<lambda>(n, c). n \<notin> set names) (store_delete name s)
        = filter (\<lambda>(n, c). n \<notin> set (name # names)) s"
    by (induction s) (auto simp: store_delete_def)
  with Cons show ?case
    by (simp add: caches_delete_def)
qed

lemma delete_all_failed:
  "\<not> cache_api_ok plat \<Longrightarrow> names \<noteq> [] \<Longrightarrow> delete_all plat names s = Inl StorageError"
  by (cases names) (simp_all add: caches_delete_def)

lemma getAppCaches_ok: "cache_api_ok plat \<Longrightarrow> getAppCaches cfg plat s = Inr (owned cfg s)"
  by (simp add: getAppCaches_def caches_keys_def owned_def)

lemma owned_filter:
  "owned cfg (filter (\<lambda>(n, c). P n) s) = filter P (owned cfg s)"
  by (induction s) (auto simp: owned_def)

lemma unowned_filter:
  "filter (\<lambda>(n, c). n \<notin> set (owned cfg s)) s = filter (\<lambda>(n, c). \<not> prefix (CACHE_PREFIX cfg) n) s"
  by (rule filter_cong) (force simp: owned_def)+

text \<open>
  C10.  Two \<^verbatim>\<open>CLEAR_APP_CACHE\<close> commands in a row, on a working cache storage and
  with a reply port: the first reply reports success and the number of owned generations,
  after it no owned generation remains (the other caches are untouched), and the second
  reply reports success and a count of 0 and leaves the storage as it is.  A message with
  no data or no type is ignored: no reply, no \<^verbatim>\<open>skipWaiting\<close>, the storage
  unchanged.
\<close>

theorem clear_owned_twice:
  "(cache_api_ok plat \<and> has_port ev \<and> data ev = Some d \<and> mtype d = Some ''CLEAR_APP_CACHE'' \<longrightarrow>
      (case message_handler cfg plat s ev of
         (s1, r1, k1) \<Rightarrow>
           r1 = Some \<lparr>success = True, payload = ClearedCaches (length (owned cfg s))\<rparr>
           \<and> s1 = filter (\<lambda>(n, c). \<not> prefix (CACHE_PREFIX cfg) n) s
           \<and> owned cfg s1 = []
           \<and> message_handler cfg plat s1 ev
               = (s1, Some \<lparr>success = True, payload = ClearedCaches 0\<rparr>, False)))
   \<and> ((data ev' = None \<or> (\<exists>d'. data ev' = Some d' \<and> mtype d' = None)) \<longrightarrow>
        message_handler cfg' plat' s' ev' = (s', None, False))"
proof (intro conjI impI)
  assume a: "cache_api_ok plat \<and> has_port ev \<and> data ev = Some d \<and> mtype d = Some ''CLEAR_APP_CACHE''"
  let ?s1 = "filter (\<lambda>(n, c). \<not> prefix (CACHE_PREFIX cfg) n) s"
  have first: "message_handler cfg plat s ev
      = (?s1, Some \<lparr>success = True, payload = ClearedCaches (length (owned cfg s))\<rparr>, False)"
    using a by (simp add: message_handler_def getAppCaches_ok delete_all_ok postMessage_def unowned_filter)
  have none: "owned cfg ?s1 = []"
    by (simp add: owned_filter) (simp add: owned_def)
  have second: "message_handler cfg plat ?s1 ev
      = (?s1, Some \<lparr>success = True, payload = ClearedCaches 0\<rparr>, False)"
    using a by (simp add: message_handler_def getAppCaches_ok none postMessage_def)
  show "case message_handler cfg plat s ev of
         (s1, r1, k1) \<Rightarrow>
           r1 = Some \<lparr>success = True, payload = ClearedCaches (length (owned cfg s))\<rparr>
           \<and> s1 = filter (\<lambda>(n, c). \<not> prefix (CACHE_PREFIX cfg) n) s
           \<and> owned cfg s1 = []
           \<and> message_handler cfg plat s1 ev
               = (s1, Some \<lparr>success = True, payload = ClearedCaches 0\<rparr>, False)"
    by (simp add: first none second)
next
  assume "data ev' = None \<or> (\<exists>d'. data ev' = Some d' \<and> mtype d' = None)"
  then show "message_handler cfg' plat' s' ev' = (s', None, False)"
    by (auto simp: message_handler_def)
qed

theorem clear_owned_twice_witness:
  "message_handler prod_config offline sample_store \<lparr>data = Some \<lparr>mtype = Some ''CLEAR_APP_CACHE''\<rparr>, has_port = True\<rparr>
     = ([(''third-party'', [])], Some \<lparr>success = True, payload = ClearedCaches 2\<rparr>, False)
   \<and> message_handler prod_config offline [(''third-party'', [])] \<lparr>data = Some \<lparr>mtype = Some ''CLEAR_APP_CACHE''\<rparr>, has_port = True\<rparr>
     = ([(''third-party'', [])], Some \<lparr>success = True, payload = ClearedCaches 0\<rparr>, False)
   \<and> message_handler prod_config offline sample_store \<lparr>data = None, has_port = True\<rparr>
     = (sample_store, None, False)"
  using clear_owned_twice [of offline "\<lparr>data = Some \<lparr>mtype = Some ''CLEAR_APP_CACHE''\<rparr>, has_port = True\<rparr>"
      "\<lparr>mtype = Some ''CLEAR_APP_CACHE''\<rparr>" prod_config sample_store
      "\<lparr>data = None, has_port = True\<rparr>" prod_config offline sample_store]
  by (simp add: offline_def prod_config_def sample_store_def owned_def CACHE_PREFIX_def
      message_handler_def getAppCaches_def caches_keys_def caches_delete_def store_delete_def
      postMessage_def)

lemma current_is_owned: "prefix (CACHE_PREFIX cfg) (CACHE_NAME cfg)"
  by (simp add: CACHE_PREFIX_def CACHE_NAME_def)

text \<open>
  A \<^verbatim>\<open>GET_CACHE_INFO\<close> command right after a \<^verbatim>\<open>CLEAR_APP_CACHE\<close> command,
  on a working cache storage: the status reports no owned generation and that the current
  cache does not exist, and leaves the storage as the clearing left it.
\<close>

theorem status_after_clear_owned:
  assumes "cache_api_ok plat" and "has_port ev" and "data ev = Some d"
    and "mtype d = Some ''CLEAR_APP_CACHE''"
    and "has_port ev'" and "data ev' = Some d'" and "mtype d' = Some ''GET_CACHE_INFO''"
  shows "message_handler cfg plat (fst (message_handler cfg plat s ev)) ev'
           = (fst (message_handler cfg plat s ev),
              Some \<lparr>success = True,
                    payload = Info \<lparr>currentVersion = CACHE_VERSION cfg,
                                    currentCacheName = CACHE_NAME cfg,
                                    currentCacheExistsI = False,
                                    appCaches = [],
                                    isDevelopmentI = isDevelopment cfg\<rparr>\<rparr>,
              False)"
proof -
  let ?s1 = "filter (\<lambda>(n, c). \<not> prefix (CACHE_PREFIX cfg) n) s"
  have first: "fst (message_handler cfg plat s ev) = ?s1"
    using assms(1-4)
    by (simp add: message_handler_def getAppCaches_ok delete_all_ok postMessage_def unowned_filter)
  have none: "owned cfg ?s1 = []"
    by (simp add: owned_filter) (simp add: owned_def)
  have gone: "CACHE_NAME cfg \<notin> fst ` set ?s1"
    using current_is_owned[of cfg] by auto
  show ?thesis
    unfolding first using assms(1,5-7) gone
    by (simp add: message_handler_def getAppCaches_ok none currentCacheExists_def caches_keys_def
        postMessage_def)
qed

theorem status_after_clear_owned_witness:
  "message_handler prod_config offline [(''third-party'', [])]
       \<lparr>data = Some \<lparr>mtype = Some ''GET_CACHE_INFO''\<rparr>, has_port = True\<rparr>
     = ([(''third-party'', [])],
        Some \<lparr>success = True,
              payload = Info \<lparr>currentVersion = ''1.2.0-ab12cd34'',
                              currentCacheName = ''nuwault-v1.2.0-ab12cd34'',
                              currentCacheExistsI = False,
                              appCaches = [],
                              isDevelopmentI = False\<rparr>\<rparr>,
        False)"
proof -
  have c: "fst (message_handler prod_config offline sample_store
                 \<lparr>data = Some \<lparr>mtype = Some ''CLEAR_APP_CACHE''\<rparr>, has_port = True\<rparr>)
           = [(''third-party'', [])]"
    by (simp add: offline_def prod_config_def sample_store_def CACHE_PREFIX_def
        message_handler_def getAppCaches_def caches_keys_def caches_delete_def store_delete_def
        postMessage_def)
  have h: "cache_api_ok offline"
    by (simp add: offline_def)
  from status_after_clear_owned [of offline
      "\<lparr>data = Some \<lparr>mtype = Some ''CLEAR_APP_CACHE''\<rparr>, has_port = True\<rparr>"
      "\<lparr>mtype = Some ''CLEAR_APP_CACHE''\<rparr>"
      "\<lparr>data = Some \<lparr>mtype = Some ''GET_CACHE_INFO''\<rparr>, has_port = True\<rparr>"
      "\<lparr>mtype = Some ''GET_CACHE_INFO''\<rparr>" prod_config sample_store, OF h]
  show ?thesis
    unfolding c
    by (simp add: CACHE_VERSION_def CACHE_NAME_def isDevelopment_def prod_config_def)
qed

section \<open>Properties of the fetch handler\<close>

text \<open>
  The two guards at the head of the handler: a request that is not a GET, or whose URL
  does not start with the origin string of the worker, is left to the browser, and the
  storage is not touched.
\<close>

theorem passthrough_guard:
  "req_method req \<noteq> ''GET'' \<or> \<not> prefix (origin (self_location cfg)) (req_url req) \<Longrightarrow>
   fetch_handler cfg plat s req = (PassThrough, s, []) \<and> fetch_event cfg plat s req = (PassThrough, s)"
  by (auto simp: fetch_handler_def fetch_event_def run_tasks_def)

theorem passthrough_guard_witness:
  "fetch_event prod_config (online (page_response ''ok'')) sample_store
       \<lparr>req_url = ''https://nuwault.com/api'', req_method = ''POST'', req_mode = ''cors'',
        req_destination = []\<rparr>
     = (PassThrough, sample_store)
   \<and> fetch_event prod_config (online (page_response ''ok'')) sample_store
       (get_request ''https://fonts.example.org/a.woff2'' ''cors'' ''font'')
     = (PassThrough, sample_store)"
  using passthrough_guard [of "\<lparr>req_url = ''https://nuwault.com/api'', req_method = ''POST'',
        req_mode = ''cors'', req_destination = []\<rparr>" prod_config "online (page_response ''ok'')" sample_store]
    passthrough_guard [of "get_request ''https://fonts.example.org/a.woff2'' ''cors'' ''font''"
      prod_config "online (page_response ''ok'')" sample_store]
  by (simp add: get_request_def prod_config_def)

text \<open>
  C6.  The same-origin guard compares strings: it lets through every URL that starts with
  the text of the worker's origin.  A GET request for
  \<^verbatim>\<open>https://nuwault.com.evil.net/manifest.json\<close> is not same-origin for the worker
  at \<^verbatim>\<open>https://nuwault.com\<close>, and yet the production handler answers it (with the
  application's own manifest) and writes a cache entry; with the network down it answers
  a cross-origin script request with its own 503 response.
\<close>

theorem cross_origin_prefix_answered:
  "\<not> same_origin prod_config ''https://nuwault.com.evil.net/manifest.json''
   \<and> fetch_event prod_config (online (page_response ''{}'')) []
        (get_request ''https://nuwault.com.evil.net/manifest.json'' ''no-cors'' ''manifest'')
      = (Respond (page_response ''{}''),
         [(''nuwault-v1.2.0-ab12cd34'', [(''https://nuwault.com/manifest.json'', page_response ''{}'')])])
   \<and> fetch_event prod_config offline []
        (get_request ''https://nuwault.com.evil.net/app.js'' ''no-cors'' ''script'')
      = (Respond service_unavailable, [])"
  by (simp add: same_origin_def url_origin_def path_start_def prod_config_def online_def offline_def
      get_request_def fetch_event_def fetch_handler_def is_passthrough_path_def url_pathname_def
      isDevelopment_def prod_respond_def prod_try_def is_favicon_def prod_manifest_def
      caches_match_def store_match_def request_key_def resolve_url_def Request_of_def
      page_response_def ok_def caches_open_def store_open_def CACHE_NAME_def run_tasks_def
      cache_put_def store_put_def entry_put_def swallow_def prod_asset_def typed_fallback_def)

text \<open>
  C8, as stated, fails: the 503 response of the typed fallback is not empty, its body is
  the text \<^verbatim>\<open>Service Unavailable\<close>.
\<close>

theorem unavailable_has_body:
  "fetch_handler prod_config offline []
       (get_request ''https://nuwault.com/assets/app.js'' ''no-cors'' ''script'')
     = (Respond service_unavailable, [], [])
   \<and> status service_unavailable = 503
   \<and> body service_unavailable = Some ''Service Unavailable''"
  by (simp add: prod_config_def offline_def
      get_request_def fetch_handler_def is_passthrough_path_def url_pathname_def path_start_def
      isDevelopment_def prod_respond_def prod_try_def is_favicon_def prod_manifest_def
      caches_match_def store_match_def request_key_def service_unavailable_def new_Response_def
      prod_asset_def typed_fallback_def)

text \<open>
  C8, amended.  In development and in production alike, a generic request (a GET whose
  URL starts with the worker's origin, not a passthrough file, not a favicon, not excluded
  by the development patterns, not a manifest URL in production) that is not a navigation,
  fails on the network and has no cached entry is answered with an empty 404 response
  when its destination is an image, and with a 503 response whose body is the text
  \<^verbatim>\<open>Service Unavailable\<close> for every other destination; the storage is unchanged
  and no detached work is started.
\<close>

theorem typed_fallback_offline:
  assumes "req_method req = ''GET''"
    and "prefix (origin (self_location cfg)) (req_url req)"
    and "\<not> is_passthrough_path (url_pathname (req_url req))"
    and "\<not> is_favicon req"
    and "req_mode req \<noteq> ''navigate''"
    and "if isDevelopment cfg then \<not> shouldSkip (req_url req)
         else \<not> str_includes (req_url req) ''manifest.json''"
    and "fetch plat req NoOptions = NetworkError"
    and "cache_api_ok plat"
    and "store_match s (request_key (req_url req)) = None"
  shows "fetch_handler cfg plat s req
           = (Respond (if req_destination req = ''image'' then image_not_found else service_unavailable), s, [])
         \<and> status image_not_found = 404 \<and> body image_not_found = None
         \<and> status service_unavailable = 503 \<and> body service_unavailable = Some ''Service Unavailable''"
proof (cases "isDevelopment cfg")
  case True
  with assms show ?thesis
    by (simp add: fetch_handler_def dev_asset_def caches_match_def typed_fallback_def
        image_not_found_def service_unavailable_def new_Response_def)
next
  case False
  with assms show ?thesis
    by (simp add: fetch_handler_def prod_respond_def prod_try_def prod_manifest_def prod_asset_def
        caches_match_def typed_fallback_def image_not_found_def service_unavailable_def
        new_Response_def)
qed

theorem typed_fallback_offline_witness:
  "fetch_handler dev_config offline sample_store
       (get_request ''http://localhost:5173/logo.png'' ''no-cors'' ''image'')
     = (Respond image_not_found, sample_store, [])
   \<and> fetch_handler prod_config offline sample_store
       (get_request ''https://nuwault.com/assets/app.js'' ''no-cors'' ''script'')
     = (Respond service_unavailable, sample_store, [])"
  using typed_fallback_offline [of "get_request ''http://localhost:5173/logo.png'' ''no-cors'' ''image''"
      dev_config offline sample_store]
    typed_fallback_offline [of "get_request ''https://nuwault.com/assets/app.js'' ''no-cors'' ''script''"
      prod_config offline sample_store]
  by (simp add: get_request_def dev_config_def prod_config_def offline_def sample_store_def
      is_passthrough_path_def url_pathname_def path_start_def is_favicon_def isDevelopment_def
      shouldSkip_def DEV_EXCLUDE_PATTERNS_def store_match_def request_key_def)

section \<open>Properties of the forced update\<close>

lemma cleanupOldCaches_ok:
  "cache_api_ok plat \<Longrightarrow>
   cleanupOldCaches cfg plat s
     = Inr (filter (\<lambda>(n, c). n \<notin> set (cachesToDelete cfg plat (owned cfg s))) s)"
  by (simp add: cleanupOldCaches_def getAppCaches_ok delete_all_ok)

lemma map_of_reopened:
  "map_of (store_open name (store_delete name s)) name = Some []"
proof -
  have "name \<notin> fst ` set (store_delete name s)"
    by (auto simp: store_delete_def)
  then show ?thesis
    by (simp add: store_open_def map_of_eq_None_iff[symmetric] map_add_def)
qed

text \<open>
  C2.  A \<^verbatim>\<open>FORCE_UPDATE\<close> during which one asset of the static list cannot be
  fetched (here the last one, all others are served): \<^verbatim>\<open>forceCacheUpdate\<close> has no
  per-entry fallback like the install handler's, so the bulk write stores nothing, the
  current generation is left empty, the prune is skipped and the reply reports failure,
  where the claim expects the 24 fetched entries and a reply reporting success.
\<close>

theorem force_update_partial_failure:
  "message_handler prod_config (online_except [''https://nuwault.com/assets/img/logo/nuwault_logo_symbol.svg''] (page_response ''asset''))
       sample_store \<lparr>data = Some \<lparr>mtype = Some ''FORCE_UPDATE''\<rparr>, has_port = True\<rparr>
     = ([(''nuwault-v1.1.0-0f0f0f0f'', [(''https://nuwault.com/'', page_response ''old'')]),
         (''third-party'', []),
         (''nuwault-v1.2.0-ab12cd34'', [])],
        Some \<lparr>success = False, payload = ErrorMessage ''Failed to fetch''\<rparr>, False)"
  by (simp add: message_handler_def forceCacheUpdate_def caches_delete_def caches_open_def
      cache_addAll_def postMessage_def failure_def prod_config_def online_except_def
      sample_store_def CACHE_NAME_def store_delete_def store_open_def STATIC_CACHE_URLS_def
      addable_def Request_of_def resolve_url_def status_response_def page_response_def ok_def
      error_message_def)

text \<open>
  What the command does in general: a \<^verbatim>\<open>FORCE_UPDATE\<close> on a working cache
  storage, with a reply port, is all or nothing.  When every asset of the static list is fetched with an ok response
  that can be stored, the reply reports success with the cache version, and the storage
  left is the prune of the rebuilt generation holding every static entry.  When any asset
  fails, the reply reports failure with the error, and the current generation is left
  in the storage, empty.
\<close>

lemma force_update_all_or_nothing:
  assumes "cache_api_ok plat" and "has_port ev" and "data ev = Some d"
    and "mtype d = Some ''FORCE_UPDATE''"
  shows "case message_handler cfg plat s ev of
           (s', r, k) \<Rightarrow>
             if list_all (addable cfg plat) STATIC_CACHE_URLS
             then r = Some \<lparr>success = True, payload = CacheVersionOf (CACHE_VERSION cfg)\<rparr>
                  \<and> cleanupOldCaches cfg plat
                       (put_fetched cfg plat (CACHE_NAME cfg) STATIC_CACHE_URLS
                          (store_open (CACHE_NAME cfg) (store_delete (CACHE_NAME cfg) s))) = Inr s'
             else r = Some \<lparr>success = False, payload = ErrorMessage (error_message TypeError)\<rparr>
                  \<and> s' = store_open (CACHE_NAME cfg) (store_delete (CACHE_NAME cfg) s)
                  \<and> map_of s' (CACHE_NAME cfg) = Some []"
  using assms
  by (simp add: message_handler_def forceCacheUpdate_def caches_delete_def caches_open_def
      cache_addAll_def cleanupOldCaches_ok postMessage_def failure_def map_of_reopened)

lemma force_update_all_or_nothing_witness:
  "fst (snd (message_handler prod_config (online (page_response ''asset'')) sample_store
       \<lparr>data = Some \<lparr>mtype = Some ''FORCE_UPDATE''\<rparr>, has_port = True\<rparr>))
     = Some \<lparr>success = True, payload = CacheVersionOf ''1.2.0-ab12cd34''\<rparr>
   \<and> fst (snd (message_handler prod_config offline sample_store
       \<lparr>data = Some \<lparr>mtype = Some ''FORCE_UPDATE''\<rparr>, has_port = True\<rparr>))
     = Some \<lparr>success = False, payload = ErrorMessage ''Failed to fetch''\<rparr>"
  using force_update_all_or_nothing [of "online (page_response ''asset'')"
      "\<lparr>data = Some \<lparr>mtype = Some ''FORCE_UPDATE''\<rparr>, has_port = True\<rparr>"
      "\<lparr>mtype = Some ''FORCE_UPDATE''\<rparr>" prod_config sample_store]
    force_update_all_or_nothing [of offline
      "\<lparr>data = Some \<lparr>mtype = Some ''FORCE_UPDATE''\<rparr>, has_port = True\<rparr>"
      "\<lparr>mtype = Some ''FORCE_UPDATE''\<rparr>" prod_config sample_store]
  by (auto simp: online_def offline_def STATIC_CACHE_URLS_def addable_def page_response_def ok_def
      CACHE_VERSION_def prod_config_def error_message_def split: prod.splits)

section \<open>Properties of the install handler\<close>

subsection \<open>Entries of the caches\<close>

lemma map_of_entry_put:
  "map_of (entry_put key r c) k = (if k = key then Some r else map_of c k)"
proof -
  have "map_of (filter (\<lambda>(k', v). k' \<noteq> key) c) k = (if k = key then None else map_of c k)"
    by (induction c) auto
  then show ?thesis
    by (auto simp: entry_put_def map_add_def split: option.splits)
qed

lemma entry_store_put:
  "entry (store_put name key r s) n k
     = (if n = name \<and> k = key \<and> name \<in> fst ` set s then Some r else entry s n k)"
proof -
  have m: "map_of (store_put name key r s) n
          = map_option (\<lambda>c. if n = name then entry_put key r c else c) (map_of s n)"
    by (induction s) (auto simp: store_put_def)
  show ?thesis
  proof (cases "map_of s n")
    case None
    then have "n \<notin> fst ` set s"
      by (simp add: map_of_eq_None_iff)
    with None show ?thesis
      by (auto simp: entry_def m)
  next
    case (Some c)
    then have "n \<in> fst ` set s"
      by (metis map_of_eq_None_iff option.distinct(1))
    with Some show ?thesis
      by (auto simp: entry_def m map_of_entry_put)
  qed
qed

lemma names_store_put: "map fst (store_put name key r s) = map fst s"
  by (induction s) (auto simp: store_put_def)

lemma names_store_put_set: "fst ` set (store_put name key r s) = fst ` set s"
  using names_store_put [of name key r s] by (metis set_map)

subsection \<open>The static list in the install handler\<close>

lemma cache_add_ok:
  "cache_api_ok plat \<Longrightarrow>
   cache_add cfg plat name ref s
     = (if addable cfg plat ref
        then (case fetch plat (Request_of cfg ref) NoOptions of
                Resp r \<Rightarrow> Inr (store_put name (request_key (resolve_url cfg ref)) r s)
              | NetworkError \<Rightarrow> Inl TypeError)
        else Inl TypeError)"
  by (auto simp: cache_add_def addable_def cache_put_def split: fetch_result.splits)

lemma add_each_frame:
  "cache_api_ok plat \<Longrightarrow> k \<notin> (\<lambda>u. request_key (resolve_url cfg u)) ` set refs \<Longrightarrow>
   entry (add_each cfg plat name refs s) n k = entry s n k"
proof (induction refs arbitrary: s)
  case Nil
  then show ?case by simp
next
  case (Cons u refs)
  then show ?case
    by (auto simp: cache_add_ok entry_store_put addable_def split: fetch_result.splits)
qed

lemma add_each_names:
  "cache_api_ok plat \<Longrightarrow> fst ` set (add_each cfg plat name refs s) = fst ` set s"
proof (induction refs arbitrary: s)
  case Nil
  then show ?case by simp
next
  case (Cons u refs)
  then show ?case
    by (auto simp: cache_add_ok names_store_put_set addable_def split: fetch_result.splits)
qed

lemma add_each_entry:
  assumes "cache_api_ok plat" and "name \<in> fst ` set s"
    and "distinct (map (\<lambda>u. request_key (resolve_url cfg u)) refs)" and "u \<in> set refs"
  shows "entry (add_each cfg plat name refs s) name (request_key (resolve_url cfg u))
           = (if addable cfg plat u
              then (case fetch plat (Request_of cfg u) NoOptions of Resp r \<Rightarrow> Some r | NetworkError \<Rightarrow> None)
              else entry s name (request_key (resolve_url cfg u)))"
  using assms
proof (induction refs arbitrary: s)
  case Nil
  then show ?case by simp
next
  case (Cons v refs)
  show ?case
  proof (cases "u = v")
    case True
    have notin: "request_key (resolve_url cfg v) \<notin> (\<lambda>u. request_key (resolve_url cfg u)) ` set refs"
      using Cons.prems(3) by auto
    show ?thesis
      using Cons.prems(1,2)
      unfolding True
      by (auto simp: cache_add_ok add_each_frame[OF Cons.prems(1) notin] entry_store_put addable_def
          split: fetch_result.splits)
  next
    case False
    then have u: "u \<in> set refs" using Cons.prems(4) by simp
    have d: "distinct (map (\<lambda>u. request_key (resolve_url cfg u)) refs)"
      using Cons.prems(3) by simp
    have ne: "request_key (resolve_url cfg u) \<noteq> request_key (resolve_url cfg v)"
      using Cons.prems(3) u by (metis (no_types, lifting) distinct.simps(2) image_eqI list.simps(9) set_map)
    show ?thesis
    proof (cases "cache_add cfg plat name v s")
      case (Inl e)
      then show ?thesis
        using Cons.IH[OF Cons.prems(1,2) d u] by simp
    next
      case (Inr s')
      then obtain r where s': "s' = store_put name (request_key (resolve_url cfg v)) r s"
        using Cons.prems(1) by (auto simp: cache_add_ok split: if_splits fetch_result.splits)
      have n: "name \<in> fst ` set s'"
        using Cons.prems(2) by (simp add: s' names_store_put_set)
      show ?thesis
        using Cons.IH[OF Cons.prems(1) n d u] Inr ne
        by (simp add: s' entry_store_put)
    qed
  qed
qed

lemma put_fetched_add_each:
  "cache_api_ok plat \<Longrightarrow> list_all (addable cfg plat) refs \<Longrightarrow>
   put_fetched cfg plat name refs s = add_each cfg plat name refs s"
proof (induction refs arbitrary: s)
  case Nil
  then show ?case by simp
next
  case (Cons u refs)
  then show ?case
    by (auto simp: cache_add_ok addable_def split: fetch_result.splits)
qed

lemma install_static_add_each:
  "cache_api_ok plat \<Longrightarrow>
   install_static cfg plat s = add_each cfg plat (CACHE_NAME cfg) STATIC_CACHE_URLS s"
  by (simp add: install_static_def cache_addAll_def put_fetched_add_each)

lemma static_refs_plain:
  "list_all (\<lambda>u. \<not> prefix ''//'' u \<and> list_all (\<lambda>c. c \<noteq> CHR ''#'') u \<and> prefix ''/'' u) STATIC_CACHE_URLS"
  unfolding STATIC_CACHE_URLS_def by simp

lemma static_distinct: "distinct STATIC_CACHE_URLS"
  unfolding STATIC_CACHE_URLS_def by simp

lemma request_key_plain: "list_all (\<lambda>c. c \<noteq> CHR ''#'') u \<Longrightarrow> request_key u = u"
  by (simp add: request_key_def list_all_iff)

lemma key_of_plain:
  assumes "wf_origin (origin (self_location cfg))" and "\<not> prefix ''//'' u"
    and "list_all (\<lambda>c. c \<noteq> CHR ''#'') u"
  shows "request_key (resolve_url cfg u) = origin (self_location cfg) @ u"
  using assms by (simp add: resolve_url_def wf_origin_def request_key_plain)

lemma static_keys_distinct:
  assumes "wf_origin (origin (self_location cfg))"
  shows "distinct (map (\<lambda>u. request_key (resolve_url cfg u)) STATIC_CACHE_URLS)"
proof -
  have "map (\<lambda>u. request_key (resolve_url cfg u)) STATIC_CACHE_URLS
          = map (\<lambda>u. origin (self_location cfg) @ u) STATIC_CACHE_URLS"
    using static_refs_plain
    by (intro map_cong refl key_of_plain[OF assms]) (auto simp: list_all_iff)
  then show ?thesis
    by (simp add: distinct_map static_distinct inj_on_def)
qed

text \<open>The later steps of the install handler only put entries; none is removed.\<close>

lemma swallow_put_present:
  "entry s n k \<noteq> None \<Longrightarrow> entry (swallow s (cache_put plat name u r s)) n k \<noteq> None"
  by (auto simp: swallow_def cache_put_def entry_store_put)

lemma put_present:
  "entry s n k \<noteq> None \<Longrightarrow>
   entry (case cache_put plat name u r s of Inl e \<Rightarrow> s | Inr s' \<Rightarrow> s') n k \<noteq> None"
  by (auto simp: cache_put_def entry_store_put)

lemma cache_additional_present:
  "entry s n k \<noteq> None \<Longrightarrow> entry (cache_additional cfg plat urls s) n k \<noteq> None"
proof (induction urls arbitrary: s)
  case Nil
  then show ?case by simp
next
  case (Cons u urls)
  show ?case
    unfolding cache_additional.simps
    by (rule Cons.IH) (use Cons.prems in \<open>auto simp: cache_put_def entry_store_put split: fetch_result.splits\<close>)
qed

lemma cache_main_page_present:
  "entry s n k \<noteq> None \<Longrightarrow> entry (cache_main_page cfg plat s) n k \<noteq> None"
  by (auto simp: cache_main_page_def cache_put_def entry_store_put split: fetch_result.splits)

lemma cache_manifest_present:
  "entry s n k \<noteq> None \<Longrightarrow> entry (cache_manifest cfg plat s) n k \<noteq> None"
  by (auto simp: cache_manifest_def cache_put_def entry_store_put split: fetch_result.splits)

lemma name_store_open: "name \<in> fst ` set (store_open name s)"
  by (auto simp: store_open_def)

text \<open>
  C5, as stated, fails: the development worker returns from the install handler before
  any caching, so that an install writes nothing although every asset could be fetched.
\<close>

theorem dev_install_caches_nothing:
  "list_all (addable dev_config (online (page_response ''asset''))) STATIC_CACHE_URLS
   \<and> install_handler dev_config (online (page_response ''asset'')) [] = (DevSkip, [])"
  by (simp add: install_handler_def isDevelopment_def dev_config_def STATIC_CACHE_URLS_def
      addable_def online_def page_response_def ok_def)

text \<open>
  C5, amended.  For every production install on a working cache storage: the handler
  runs to its end whatever assets are missing; the bulk write of the static list is tried
  first and stands when every asset can be added, and otherwise each entry is added on its
  own; after this step the current generation holds, for every static entry that could be
  fetched with an ok response and stored, that response, while a failing entry is skipped
  (its key is left as it was); and the entries written stay present through the rest of
  the population of the cache.
\<close>

theorem install_static_exhaustive:
  assumes "\<not> isDevelopment cfg" and "cache_api_ok plat"
    and "wf_origin (origin (self_location cfg))"
  shows "fst (install_handler cfg plat s) = Installed
    \<and> (let s0 = store_open (CACHE_NAME cfg) s in
         (if list_all (addable cfg plat) STATIC_CACHE_URLS
          then install_static cfg plat s0 = put_fetched cfg plat (CACHE_NAME cfg) STATIC_CACHE_URLS s0
          else install_static cfg plat s0 = add_each cfg plat (CACHE_NAME cfg) STATIC_CACHE_URLS s0)
       \<and> (\<forall>u \<in> set STATIC_CACHE_URLS.
            entry (install_static cfg plat s0) (CACHE_NAME cfg) (request_key (resolve_url cfg u))
              = (if addable cfg plat u
                 then (case fetch plat (Request_of cfg u) NoOptions of
                         Resp r \<Rightarrow> Some r | NetworkError \<Rightarrow> None)
                 else entry s0 (CACHE_NAME cfg) (request_key (resolve_url cfg u)))
            \<and> (addable cfg plat u \<longrightarrow>
                 entry (install_populate cfg plat s0) (CACHE_NAME cfg)
                   (request_key (resolve_url cfg u)) \<noteq> None)))"
proof -
  let ?s0 = "store_open (CACHE_NAME cfg) s"
  have outcome: "fst (install_handler cfg plat s) = Installed"
    using assms(1,2)
    by (simp add: install_handler_def caches_open_def cleanupOldCaches_ok Let_def)
  have bulk: "if list_all (addable cfg plat) STATIC_CACHE_URLS
      then install_static cfg plat ?s0 = put_fetched cfg plat (CACHE_NAME cfg) STATIC_CACHE_URLS ?s0
      else install_static cfg plat ?s0 = add_each cfg plat (CACHE_NAME cfg) STATIC_CACHE_URLS ?s0"
    using assms(2) by (simp add: install_static_def cache_addAll_def)
  have each: "entry (install_static cfg plat ?s0) (CACHE_NAME cfg) (request_key (resolve_url cfg u))
              = (if addable cfg plat u
                 then (case fetch plat (Request_of cfg u) NoOptions of
                         Resp r \<Rightarrow> Some r | NetworkError \<Rightarrow> None)
                 else entry ?s0 (CACHE_NAME cfg) (request_key (resolve_url cfg u)))"
    if "u \<in> set STATIC_CACHE_URLS" for u
    unfolding install_static_add_each[OF assms(2)]
    by (rule add_each_entry[OF assms(2) name_store_open static_keys_distinct[OF assms(3)] that])
  have kept: "entry (install_populate cfg plat ?s0) (CACHE_NAME cfg)
                   (request_key (resolve_url cfg u)) \<noteq> None"
    if "u \<in> set STATIC_CACHE_URLS" and "addable cfg plat u" for u
  proof -
    have "entry (install_static cfg plat ?s0) (CACHE_NAME cfg) (request_key (resolve_url cfg u)) \<noteq> None"
      using each[OF that(1)] that(2) by (auto simp: addable_def split: fetch_result.splits)
    then show ?thesis
      unfolding install_populate_def Let_def
      by (intro cache_manifest_present cache_main_page_present cache_additional_present)
  qed
  show ?thesis
    using outcome bulk each kept by (simp add: Let_def)
qed

theorem install_static_exhaustive_witness:
  "fst (install_handler prod_config
          (online_except [''https://nuwault.com/assets/img/logo/nuwault_logo_symbol.svg''] (page_response ''asset''))
          sample_store) = Installed
   \<and> entry (install_static prod_config
          (online_except [''https://nuwault.com/assets/img/logo/nuwault_logo_symbol.svg''] (page_response ''asset''))
          (store_open (CACHE_NAME prod_config) sample_store))
        (CACHE_NAME prod_config) ''https://nuwault.com/index.html'' = Some (page_response ''asset'')
   \<and> entry (install_static prod_config
          (online_except [''https://nuwault.com/assets/img/logo/nuwault_logo_symbol.svg''] (page_response ''asset''))
          (store_open (CACHE_NAME prod_config) sample_store))
        (CACHE_NAME prod_config) ''https://nuwault.com/assets/img/logo/nuwault_logo_symbol.svg'' = None"
proof -
  let ?P = "online_except [''https://nuwault.com/assets/img/logo/nuwault_logo_symbol.svg''] (page_response ''asset'')"
  have h1: "\<not> isDevelopment prod_config"
    by (simp add: isDevelopment_def prod_config_def)
  have h2: "cache_api_ok ?P"
    by (simp add: online_except_def)
  have h3: "wf_origin (origin (self_location prod_config))"
    by (simp add: wf_origin_def prod_config_def path_start_def)
  note t = install_static_exhaustive [OF h1 h2 h3, of sample_store, unfolded Let_def]
  have m1: "''/index.html'' \<in> set STATIC_CACHE_URLS"
    and m2: "''/assets/img/logo/nuwault_logo_symbol.svg'' \<in> set STATIC_CACHE_URLS"
    by (simp_all add: STATIC_CACHE_URLS_def)
  have a1: "addable prod_config ?P ''/index.html''"
    and a2: "\<not> addable prod_config ?P ''/assets/img/logo/nuwault_logo_symbol.svg''"
    by (simp_all add: addable_def online_except_def Request_of_def resolve_url_def prod_config_def
        page_response_def status_response_def ok_def)
  have k1: "request_key (resolve_url prod_config ''/index.html'') = ''https://nuwault.com/index.html''"
    and k2: "request_key (resolve_url prod_config ''/assets/img/logo/nuwault_logo_symbol.svg'')
              = ''https://nuwault.com/assets/img/logo/nuwault_logo_symbol.svg''"
    by (simp_all add: request_key_def resolve_url_def prod_config_def)
  have f1: "fetch ?P (Request_of prod_config ''/index.html'') NoOptions = Resp (page_response ''asset'')"
    by (simp add: online_except_def Request_of_def resolve_url_def prod_config_def)
  have before: "entry (store_open (CACHE_NAME prod_config) sample_store) (CACHE_NAME prod_config)
                  ''https://nuwault.com/assets/img/logo/nuwault_logo_symbol.svg'' = None"
    by (simp add: entry_def store_open_def sample_store_def CACHE_NAME_def prod_config_def)
  from t m1 a1 k1 f1 have e1: "entry (install_static prod_config ?P (store_open (CACHE_NAME prod_config) sample_store))
        (CACHE_NAME prod_config) ''https://nuwault.com/index.html'' = Some (page_response ''asset'')"
    by fastforce
  from t m2 a2 k2 before have e2: "entry (install_static prod_config ?P (store_open (CACHE_NAME prod_config) sample_store))
        (CACHE_NAME prod_config) ''https://nuwault.com/assets/img/logo/nuwault_logo_symbol.svg'' = None"
    by fastforce
  from t e1 e2 show ?thesis by blast
qed

section \<open>Properties of the prune\<close>

lemma set_insert_by: "set (insert_by cmp x ys) = insert x (set ys)"
  by (induction ys) auto

lemma length_insert_by: "length (insert_by cmp x ys) = Suc (length ys)"
  by (induction ys) auto

lemma distinct_insert_by: "distinct (insert_by cmp x ys) = (x \<notin> set ys \<and> distinct ys)"
  by (induction ys) (auto simp: set_insert_by)

lemma set_js_sort: "set (js_sort cmp xs) = set xs"
  by (induction xs) (auto simp: js_sort_def set_insert_by)

lemma length_js_sort: "length (js_sort cmp xs) = length xs"
  by (induction xs) (auto simp: js_sort_def length_insert_by)

lemma distinct_js_sort: "distinct (js_sort cmp xs) = distinct xs"
proof (induction xs)
  case Nil
  then show ?case by (simp add: js_sort_def)
next
  case (Cons x xs)
  have "js_sort cmp (x # xs) = insert_by cmp x (js_sort cmp xs)"
    by (simp add: js_sort_def)
  with Cons show ?case
    by (simp add: distinct_insert_by set_js_sort)
qed

lemma sorted_insert_by:
  assumes "consistent_compare cmp" and "sorted_wrt (\<lambda>a b. cmp a b \<le> 0) ys"
  shows "sorted_wrt (\<lambda>a b. cmp a b \<le> 0) (insert_by cmp x ys)"
  using assms(2)
proof (induction ys)
  case Nil
  then show ?case by simp
next
  case (Cons y ys)
  have total: "cmp x y \<le> 0 \<or> cmp y x \<le> 0"
    and trans: "\<And>a b c. cmp a b \<le> 0 \<Longrightarrow> cmp b c \<le> 0 \<Longrightarrow> cmp a c \<le> 0"
    using assms(1) unfolding consistent_compare_def by blast+
  show ?case
  proof (cases "cmp x y \<le> 0")
    case True
    with Cons.prems trans show ?thesis by auto
  next
    case False
    with total have "cmp y x \<le> 0" by simp
    with False Cons show ?thesis
      by (auto simp: set_insert_by)
  qed
qed

lemma sorted_js_sort:
  "consistent_compare cmp \<Longrightarrow> sorted_wrt (\<lambda>a b. cmp a b \<le> 0) (js_sort cmp xs)"
proof (induction xs)
  case Nil
  then show ?case by (simp add: js_sort_def)
next
  case (Cons x xs)
  have "js_sort cmp (x # xs) = insert_by cmp x (js_sort cmp xs)"
    by (simp add: js_sort_def)
  with Cons show ?case
    by (simp add: sorted_insert_by)
qed

lemma kept_before_dropped:
  assumes "consistent_compare cmp" and "k \<in> set (take n (js_sort cmp xs))"
    and "d \<in> set (drop n (js_sort cmp xs))"
  shows "cmp k d \<le> 0"
proof -
  have "sorted_wrt (\<lambda>a b. cmp a b \<le> 0) (take n (js_sort cmp xs) @ drop n (js_sort cmp xs))"
    using sorted_js_sort[OF assms(1)] by simp
  then show ?thesis
    using assms(2,3) unfolding sorted_wrt_append by blast
qed

lemma code_unit_compare_total: "code_unit_compare a b \<le> 0 \<or> code_unit_compare b a \<le> 0"
  by (induction a b rule: code_unit_compare.induct) auto

lemma code_unit_compare_trans:
  "code_unit_compare a b \<le> 0 \<Longrightarrow> code_unit_compare b c \<le> 0 \<Longrightarrow> code_unit_compare a c \<le> 0"
proof (induction a arbitrary: b c)
  case Nil
  then show ?case by (cases c) auto
next
  case (Cons x a)
  then obtain y b' where b: "b = y # b'" by (cases b) auto
  with Cons.prems obtain z c' where c: "c = z # c'" by (cases c) auto
  show ?case
    using Cons.prems Cons.IH[of b' c'] unfolding b c
    by (auto split: if_splits)
qed

lemma owned_distinct: "distinct (map fst s) \<Longrightarrow> distinct (owned cfg s)"
  by (simp add: owned_def)

lemma sortedCaches_facts:
  "set (sortedCaches cfg plat xs) = set xs"
  "length (sortedCaches cfg plat xs) = length xs"
  "distinct (sortedCaches cfg plat xs) = distinct xs"
  by (simp_all add: sortedCaches_def set_js_sort length_js_sort distinct_js_sort)

lemma take_drop_disjoint:
  "distinct xs \<Longrightarrow> x \<in> set (take n xs) \<Longrightarrow> x \<notin> set (drop n xs)"
  by (metis append_take_drop_id disjoint_iff distinct_append)

lemma take_or_drop: "x \<in> set xs \<Longrightarrow> x \<in> set (take n xs) \<or> x \<in> set (drop n xs)"
  by (metis Un_iff append_take_drop_id set_append)

lemma guarded_drop: "(if n < length xs then drop n xs else []) = drop n xs"
  by simp

lemma cachesToDelete_dev:
  "isDevelopment cfg \<Longrightarrow>
   set (cachesToDelete cfg plat xs) = set (drop MAX_CACHES (sortedCaches cfg plat xs))"
  unfolding cachesToDelete_def Let_def guarded_drop by simp

lemma cachesToDelete_prod:
  "\<not> isDevelopment cfg \<Longrightarrow>
   set (cachesToDelete cfg plat xs)
     = set (drop MAX_CACHES (sortedCaches cfg plat xs)) \<union> (set xs - {CACHE_NAME cfg})"
  unfolding cachesToDelete_def Let_def guarded_drop by (auto simp: sortedCaches_facts)

lemma distinct_singleton_set: "distinct xs \<Longrightarrow> set xs = {c} \<Longrightarrow> xs = [c]"
proof (cases xs)
  case Nil
  then show "set xs = {c} \<Longrightarrow> xs = [c]" by simp
next
  case (Cons a as)
  assume d: "distinct xs" and s: "set xs = {c}"
  from s Cons have a: "a = c" and "set as \<subseteq> {c}" by auto
  moreover from d Cons have "a \<notin> set as" by simp
  ultimately have "set as = {}" by (auto simp: subset_singleton_iff)
  then have "as = []" by simp
  with a Cons show "xs = [c]" by simp
qed

text \<open>
  C3, amended.  After a prune pass on a working cache storage (whose cache names are
  distinct, as the names of a cache storage are), and so after the prune of the activate
  handler: at most \<open>MAX_CACHES\<close> owned generations remain, and each of them is among
  the first \<open>MAX_CACHES\<close> of the owned names sorted by version in descending order; with
  a consistent collation every retained name precedes, in that order, every name dropped
  beyond the limit.  In development the retained generations are exactly those first
  \<open>MAX_CACHES\<close>.  In production at most one generation remains and only the current
  one can: exactly the current one when it is among those first \<open>MAX_CACHES\<close>, none
  otherwise.
\<close>

theorem prune_retention:
  assumes "cache_api_ok plat" and "distinct (map fst s)"
  shows "case cleanupOldCaches cfg plat s of
           Inl e \<Rightarrow> False
         | Inr s' \<Rightarrow>
             fst (activate_handler cfg plat clients s) = s'
             \<and> length (owned cfg s') \<le> MAX_CACHES
             \<and> set (owned cfg s') \<subseteq> set (take MAX_CACHES (sortedCaches cfg plat (owned cfg s)))
             \<and> (consistent_compare (compare_versions cfg plat) \<longrightarrow>
                  (\<forall>k \<in> set (owned cfg s'). \<forall>d \<in> set (owned cfg s) - set (owned cfg s').
                     k \<in> set (take MAX_CACHES (sortedCaches cfg plat (owned cfg s))) \<and>
                     (d \<in> set (drop MAX_CACHES (sortedCaches cfg plat (owned cfg s))) \<longrightarrow>
                        compare_versions cfg plat k d \<le> 0)))
             \<and> (if isDevelopment cfg
                 then set (owned cfg s') = set (take MAX_CACHES (sortedCaches cfg plat (owned cfg s)))
                 else length (owned cfg s') \<le> 1
                      \<and> set (owned cfg s') \<subseteq> {CACHE_NAME cfg}
                      \<and> (if CACHE_NAME cfg \<in> set (take MAX_CACHES (sortedCaches cfg plat (owned cfg s)))
                          then owned cfg s' = [CACHE_NAME cfg]
                          else owned cfg s' = []))"
proof -
  let ?apps = "owned cfg s"
  let ?sorted = "sortedCaches cfg plat ?apps"
  let ?del = "cachesToDelete cfg plat ?apps"
  let ?s' = "filter (\<lambda>(n, c). n \<notin> set ?del) s"
  have res: "cleanupOldCaches cfg plat s = Inr ?s'"
    by (rule cleanupOldCaches_ok[OF assms(1)])
  have act: "fst (activate_handler cfg plat clients s) = ?s'"
    using assms(1) by (simp add: activate_handler_def res getAppCaches_ok)
  have kept: "owned cfg ?s' = filter (\<lambda>n. n \<notin> set ?del) ?apps"
    by (rule owned_filter)
  have dapps: "distinct ?apps"
    by (rule owned_distinct[OF assms(2)])
  have dsorted: "distinct ?sorted"
    using dapps by (simp add: sortedCaches_facts)
  have deldrop: "set (drop MAX_CACHES ?sorted) \<subseteq> set ?del"
    by (cases "isDevelopment cfg") (auto simp: cachesToDelete_dev cachesToDelete_prod)
  have sub: "set (owned cfg ?s') \<subseteq> set (take MAX_CACHES ?sorted)"
  proof
    fix n assume "n \<in> set (owned cfg ?s')"
    then have "n \<in> set ?apps" and "n \<notin> set ?del"
      unfolding kept by simp_all
    then have "n \<in> set ?sorted" and "n \<notin> set (drop MAX_CACHES ?sorted)"
      using deldrop by (auto simp: sortedCaches_facts)
    then show "n \<in> set (take MAX_CACHES ?sorted)"
      using take_or_drop[of n ?sorted MAX_CACHES] by simp
  qed
  have dkept: "distinct (owned cfg ?s')"
    unfolding kept using dapps by simp
  have len: "length (owned cfg ?s') \<le> MAX_CACHES"
  proof -
    have "length (owned cfg ?s') = card (set (owned cfg ?s'))"
      using dkept by (simp add: distinct_card)
    also have "\<dots> \<le> card (set (take MAX_CACHES ?sorted))"
      by (rule card_mono[OF _ sub]) simp
    also have "\<dots> \<le> length (take MAX_CACHES ?sorted)"
      by (rule card_length)
    also have "\<dots> \<le> MAX_CACHES"
      by simp
    finally show ?thesis .
  qed
  have order: "\<forall>k \<in> set (owned cfg ?s'). \<forall>d \<in> set ?apps - set (owned cfg ?s').
                 k \<in> set (take MAX_CACHES ?sorted) \<and>
                 (d \<in> set (drop MAX_CACHES ?sorted) \<longrightarrow> compare_versions cfg plat k d \<le> 0)"
    if "consistent_compare (compare_versions cfg plat)"
  proof (intro ballI conjI impI)
    fix k d
    assume k: "k \<in> set (owned cfg ?s')"
    then show k5: "k \<in> set (take MAX_CACHES ?sorted)"
      using sub by (rule rev_subsetD)
    assume "d \<in> set (drop MAX_CACHES ?sorted)"
    with k5 show "compare_versions cfg plat k d \<le> 0"
      unfolding sortedCaches_def by (rule kept_before_dropped[OF that])
  qed
  have mode: "if isDevelopment cfg
      then set (owned cfg ?s') = set (take MAX_CACHES ?sorted)
      else length (owned cfg ?s') \<le> 1
           \<and> set (owned cfg ?s') \<subseteq> {CACHE_NAME cfg}
           \<and> (if CACHE_NAME cfg \<in> set (take MAX_CACHES ?sorted)
               then owned cfg ?s' = [CACHE_NAME cfg]
               else owned cfg ?s' = [])"
  proof (cases "isDevelopment cfg")
    case True
    have "set (take MAX_CACHES ?sorted) \<subseteq> set (owned cfg ?s')"
    proof
      fix n assume n: "n \<in> set (take MAX_CACHES ?sorted)"
      then have "n \<in> set ?sorted" by (rule in_set_takeD)
      moreover have "n \<notin> set (drop MAX_CACHES ?sorted)"
        by (rule take_drop_disjoint[OF dsorted n])
      ultimately show "n \<in> set (owned cfg ?s')"
        unfolding kept using True by (simp add: cachesToDelete_dev sortedCaches_facts)
    qed
    with sub True show ?thesis by auto
  next
    case False
    have only: "set (owned cfg ?s') \<subseteq> {CACHE_NAME cfg}"
      unfolding kept using False by (auto simp: cachesToDelete_prod)
    have at_most: "length (owned cfg ?s') \<le> 1"
    proof -
      have "length (owned cfg ?s') = card (set (owned cfg ?s'))"
        using dkept by (simp add: distinct_card)
      also have "\<dots> \<le> card {CACHE_NAME cfg}"
        by (rule card_mono[OF _ only]) simp
      finally show ?thesis by simp
    qed
    have one: "owned cfg ?s' = [CACHE_NAME cfg]"
      if n: "CACHE_NAME cfg \<in> set (take MAX_CACHES ?sorted)"
    proof -
      have "CACHE_NAME cfg \<in> set ?apps"
        using in_set_takeD[OF n] by (simp add: sortedCaches_facts)
      moreover have "CACHE_NAME cfg \<notin> set (drop MAX_CACHES ?sorted)"
        by (rule take_drop_disjoint[OF dsorted n])
      ultimately have "CACHE_NAME cfg \<in> set (owned cfg ?s')"
        unfolding kept using False by (simp add: cachesToDelete_prod)
      with only have "set (owned cfg ?s') = {CACHE_NAME cfg}" by auto
      with dkept show ?thesis
        by (rule distinct_singleton_set)
    qed
    have zero: "owned cfg ?s' = []"
      if "CACHE_NAME cfg \<notin> set (take MAX_CACHES ?sorted)"
      using that sub only by (cases "owned cfg ?s'") auto
    show ?thesis
      using False only at_most one zero by simp
  qed
  show ?thesis
    using act len sub order mode by (simp add: res)
qed

lemma compare_versions_consistent:
  "localeCompare plat = code_unit_compare \<Longrightarrow> consistent_compare (compare_versions cfg plat)"
  unfolding consistent_compare_def compare_versions_def Let_def
  using code_unit_compare_total code_unit_compare_trans by metis

lemma clear_all_empties:
  assumes "cache_api_ok plat" and "data ev = Some d" and "mtype d = Some ''CLEAR_CACHE''"
  shows "fst (message_handler cfg plat s ev) = []"
proof -
  have "filter (\<lambda>(n, c). n \<notin> set (map fst s)) s = []"
    by (force simp: filter_empty_conv)
  with assms show ?thesis
    by (simp add: message_handler_def caches_keys_def delete_all_ok)
qed

text \<open>
  C3, as stated, fails: in production the prune of the activate handler can leave no
  generation at all.  The prune only deletes; when the current generation is not in the
  storage, every owned generation is deleted and none remains.  This is the case when the
  install handler could not open its cache, and when a \<^verbatim>\<open>CLEAR_CACHE\<close> command
  is handled between the install and the activation.
\<close>

theorem production_activation_may_leave_none:
  "fst (activate_handler prod_config offline 1 old_store) = [(''third-party'', [])]
   \<and> owned prod_config (fst (activate_handler prod_config offline 1 old_store)) = []
   \<and> owned prod_config
        (fst (activate_handler prod_config offline 1
               (snd (install_handler prod_config broken_storage old_store)))) = []
   \<and> owned prod_config
        (run_events prod_config
           [InstallEvent (online (page_response app_page)),
            MessageEvent offline \<lparr>data = Some \<lparr>mtype = Some ''CLEAR_CACHE''\<rparr>, has_port = True\<rparr>,
            ActivateEvent offline 1]
           old_store) = []"
proof -
  have a: "fst (activate_handler prod_config offline 1 old_store) = [(''third-party'', [])]
   \<and> owned prod_config (fst (activate_handler prod_config offline 1 old_store)) = []
   \<and> owned prod_config
        (fst (activate_handler prod_config offline 1
               (snd (install_handler prod_config broken_storage old_store)))) = []"
    by (simp add: activate_handler_def cleanupOldCaches_def getAppCaches_def caches_keys_def
      offline_def old_store_def prod_config_def CACHE_PREFIX_def cachesToDelete_def
      sortedCaches_def js_sort_def MAX_CACHES_def isDevelopment_def CACHE_NAME_def
      caches_delete_def store_delete_def owned_def install_handler_def caches_open_def
      broken_storage_def)
  have ok: "cache_api_ok offline"
    by (simp add: offline_def)
  have cleared: "fst (message_handler prod_config offline s
            \<lparr>data = Some \<lparr>mtype = Some ''CLEAR_CACHE''\<rparr>, has_port = True\<rparr>) = []" for s
    by (rule clear_all_empties[OF ok, of _ "\<lparr>mtype = Some ''CLEAR_CACHE''\<rparr>"]) simp_all
  have empty: "owned prod_config (fst (activate_handler prod_config offline 1 [])) = []"
    by (simp add: activate_handler_def cleanupOldCaches_def getAppCaches_def caches_keys_def
        offline_def cachesToDelete_def sortedCaches_def js_sort_def MAX_CACHES_def owned_def)
  have b: "owned prod_config
        (run_events prod_config
           [InstallEvent (online (page_response app_page)),
            MessageEvent offline \<lparr>data = Some \<lparr>mtype = Some ''CLEAR_CACHE''\<rparr>, has_port = True\<rparr>,
            ActivateEvent offline 1]
           old_store) = []"
    unfolding run_events_def fold_simps step.simps cleared by (rule empty)
  from a b show ?thesis by blast
qed

theorem prune_retention_witness:
  "cleanupOldCaches dev_config offline dev_store
     = Inr [(''third-party'', []),
            (''nuwault-v1.0.0-slzwc3-00000003'', []),
            (''nuwault-v1.0.0-slzwd4-00000004'', []),
            (''nuwault-v1.0.0-slzwe5-00000005'', []),
            (''nuwault-v1.0.0-slzwf6-00000006'', []),
            (''nuwault-v1.0.0-slzwjk-ab12cd34'', [])]
   \<and> consistent_compare (compare_versions dev_config offline)
   \<and> cleanupOldCaches prod_config offline sample_store
     = Inr [(''third-party'', []),
            (''nuwault-v1.2.0-ab12cd34'', [(''https://nuwault.com/'', page_response ''new'')])]"
proof -
  have h1: "cache_api_ok offline"
    by (simp add: offline_def)
  have h2: "distinct (map fst dev_store)" and h3: "distinct (map fst sample_store)"
    by (simp_all add: dev_store_def sample_store_def)
  note t1 = prune_retention [OF h1 h2, of dev_config 0]
  note t2 = prune_retention [OF h1 h3, of prod_config 0]
  have c: "consistent_compare (compare_versions dev_config offline)"
    by (rule compare_versions_consistent) (simp add: offline_def)
  have e1: "cleanupOldCaches dev_config offline dev_store
     = Inr [(''third-party'', []),
            (''nuwault-v1.0.0-slzwc3-00000003'', []),
            (''nuwault-v1.0.0-slzwd4-00000004'', []),
            (''nuwault-v1.0.0-slzwe5-00000005'', []),
            (''nuwault-v1.0.0-slzwf6-00000006'', []),
            (''nuwault-v1.0.0-slzwjk-ab12cd34'', [])]"
    by (simp add: cleanupOldCaches_def getAppCaches_def caches_keys_def
      offline_def dev_store_def dev_config_def CACHE_PREFIX_def cachesToDelete_def
      sortedCaches_def js_sort_def MAX_CACHES_def isDevelopment_def CACHE_NAME_def
      caches_delete_def store_delete_def compare_versions_def)
  have e2: "cleanupOldCaches prod_config offline sample_store
     = Inr [(''third-party'', []),
            (''nuwault-v1.2.0-ab12cd34'', [(''https://nuwault.com/'', page_response ''new'')])]"
    by (simp add: cleanupOldCaches_def getAppCaches_def caches_keys_def
      offline_def sample_store_def prod_config_def CACHE_PREFIX_def cachesToDelete_def
      sortedCaches_def js_sort_def MAX_CACHES_def isDevelopment_def CACHE_NAME_def
      caches_delete_def store_delete_def compare_versions_def)
  from t1 t2 c e1 e2 show ?thesis by simp
qed

section \<open>Properties of the cached shell\<close>

lemma entry_store_open: "entry (store_open name s) n k = entry s n k"
proof (cases "name \<in> set (map fst s)")
  case True
  then show ?thesis by (simp add: store_open_def)
next
  case False
  then have "map_of s name = None"
    by (simp add: map_of_eq_None_iff)
  with False show ?thesis
    by (auto simp: store_open_def entry_def map_add_def split: option.splits)
qed

text \<open>
  C4, amended.  In production, for a navigation request when a shell is cached (under
  \<^verbatim>\<open>/index.html\<close> or else under \<^verbatim>\<open>/\<close>) and the cache storage works: the
  handler answers with the cached response and starts one detached task, without touching
  the storage and whatever the network does; the answer of the event is the cached response
  also when the detached work has run.  The detached task fetches \<^verbatim>\<open>/index.html\<close>
  and overwrites the entries of the current cache under \<^verbatim>\<open>/\<close> and
  \<^verbatim>\<open>/index.html\<close>, and nothing else, exactly when the response is ok (status 200 to
  299) and the cache accepts it; an ok response that cannot be stored leaves at most the
  current cache opened, and a response that is not ok or a network error leaves the
  storage as it was.
\<close>

theorem shell_served_then_refreshed:
  assumes "\<not> isDevelopment cfg" and "req_method req = ''GET''"
    and "prefix (origin (self_location cfg)) (req_url req)"
    and "\<not> is_passthrough_path (url_pathname (req_url req))"
    and "\<not> is_favicon req" and "\<not> str_includes (req_url req) ''manifest.json''"
    and "req_mode req = ''navigate''" and "cache_api_ok plat"
    and "(case store_match s (request_key (resolve_url cfg ''/index.html'')) of
            Some r \<Rightarrow> Some r
          | None \<Rightarrow> store_match s (request_key (resolve_url cfg ''/''))) = Some cachedResponse"
  shows "fetch_handler cfg plat s req = (Respond cachedResponse, s, [RefreshShell])
    \<and> fst (fetch_event cfg plat s req) = Respond cachedResponse
    \<and> (case fetch plat (Request_of cfg ''/index.html'') NoOptions of
          NetworkError \<Rightarrow> snd (fetch_event cfg plat s req) = s
        | Resp r \<Rightarrow>
            if ok r \<and> put_accepts plat r then
              (\<forall>n k. entry (snd (fetch_event cfg plat s req)) n k
                 = (if n = CACHE_NAME cfg \<and>
                       (k = request_key (resolve_url cfg ''/'') \<or>
                        k = request_key (resolve_url cfg ''/index.html''))
                    then Some r else entry s n k))
            else if ok r then snd (fetch_event cfg plat s req) = store_open (CACHE_NAME cfg) s
            else snd (fetch_event cfg plat s req) = s)"
proof -
  have h: "fetch_handler cfg plat s req = (Respond cachedResponse, s, [RefreshShell])"
    using assms
    by (simp add: fetch_handler_def prod_respond_def prod_try_def prod_manifest_def
        prod_navigation_def caches_match_def split: option.splits)
  then have ev: "fetch_event cfg plat s req = (Respond cachedResponse, run_task cfg plat RefreshShell s)"
    by (simp add: fetch_event_def run_tasks_def)
  have bg: "case fetch plat (Request_of cfg ''/index.html'') NoOptions of
          NetworkError \<Rightarrow> run_task cfg plat RefreshShell s = s
        | Resp r \<Rightarrow>
            if ok r \<and> put_accepts plat r then
              (\<forall>n k. entry (run_task cfg plat RefreshShell s) n k
                 = (if n = CACHE_NAME cfg \<and>
                       (k = request_key (resolve_url cfg ''/'') \<or>
                        k = request_key (resolve_url cfg ''/index.html''))
                    then Some r else entry s n k))
            else if ok r then run_task cfg plat RefreshShell s = store_open (CACHE_NAME cfg) s
            else run_task cfg plat RefreshShell s = s"
    using assms(8)
    by (auto simp: caches_open_def cache_put_def swallow_def entry_store_put entry_store_open
        names_store_put_set name_store_open Let_def split: fetch_result.splits)
  show ?thesis
    unfolding ev fst_conv snd_conv using h bg by simp
qed

text \<open>
  C4, as stated, fails: the background update is guarded by \<^verbatim>\<open>response.ok\<close>, not
  by a 200 same-origin test.  A 204 response of type \<^verbatim>\<open>cors\<close> overwrites the cached
  shell.
\<close>

theorem shell_overwritten_by_non_200:
  "status (status_response 204 Cors) \<noteq> 200 \<and> rtype (status_response 204 Cors) \<noteq> Basic
   \<and> fetch_event prod_config (online (status_response 204 Cors)) sample_store navigation_request
     = (Respond (page_response ''old''),
        [(''nuwault-v1.1.0-0f0f0f0f'', [(''https://nuwault.com/'', page_response ''old'')]),
         (''third-party'', []),
         (''nuwault-v1.2.0-ab12cd34'',
            [(''https://nuwault.com/'', status_response 204 Cors),
             (''https://nuwault.com/index.html'', status_response 204 Cors)])])"
  by (simp add: navigation_request_def prod_config_def online_def sample_store_def
      get_request_def fetch_event_def fetch_handler_def is_passthrough_path_def url_pathname_def
      path_start_def isDevelopment_def prod_respond_def prod_try_def is_favicon_def
      prod_manifest_def prod_navigation_def caches_match_def store_match_def request_key_def
      resolve_url_def Request_of_def status_response_def ok_def caches_open_def store_open_def
      CACHE_NAME_def run_tasks_def cache_put_def store_put_def entry_put_def swallow_def)

theorem shell_served_then_refreshed_witness:
  "fetch_handler prod_config offline sample_store navigation_request
     = (Respond (page_response ''old''), sample_store, [RefreshShell])
   \<and> fetch_event prod_config offline sample_store navigation_request
     = (Respond (page_response ''old''), sample_store)
   \<and> fst (fetch_event prod_config (online (page_response ''fresh'')) sample_store navigation_request)
     = Respond (page_response ''old'')
   \<and> entry (snd (fetch_event prod_config (online (page_response ''fresh'')) sample_store navigation_request))
        ''nuwault-v1.2.0-ab12cd34'' ''https://nuwault.com/index.html'' = Some (page_response ''fresh'')"
proof -
  have pre: "\<not> isDevelopment prod_config" "req_method navigation_request = ''GET''"
    "prefix (origin (self_location prod_config)) (req_url navigation_request)"
    "\<not> is_passthrough_path (url_pathname (req_url navigation_request))"
    "\<not> is_favicon navigation_request"
    "\<not> str_includes (req_url navigation_request) ''manifest.json''"
    "req_mode navigation_request = ''navigate''"
    by (simp_all add: navigation_request_def get_request_def prod_config_def isDevelopment_def
        is_passthrough_path_def url_pathname_def path_start_def is_favicon_def)
  have ok1: "cache_api_ok offline" and ok2: "cache_api_ok (online (page_response ''fresh''))"
    by (simp_all add: offline_def online_def)
  have shell: "(case store_match sample_store (request_key (resolve_url prod_config ''/index.html'')) of
            Some r \<Rightarrow> Some r
          | None \<Rightarrow> store_match sample_store (request_key (resolve_url prod_config ''/'')))
        = Some (page_response ''old'')"
    by (simp add: store_match_def sample_store_def request_key_def resolve_url_def prod_config_def)
  note t1 = shell_served_then_refreshed [OF pre ok1 shell]
  note t2 = shell_served_then_refreshed [OF pre ok2 shell]
  have f1: "fetch offline (Request_of prod_config ''/index.html'') NoOptions = NetworkError"
    by (simp add: offline_def)
  have f2: "fetch (online (page_response ''fresh'')) (Request_of prod_config ''/index.html'') NoOptions
              = Resp (page_response ''fresh'')"
    by (simp add: online_def)
  have a2: "ok (page_response ''fresh'') \<and> put_accepts (online (page_response ''fresh'')) (page_response ''fresh'')"
    by (simp add: ok_def page_response_def online_def)
  have k: "request_key (resolve_url prod_config ''/index.html'') = ''https://nuwault.com/index.html''"
    "CACHE_NAME prod_config = ''nuwault-v1.2.0-ab12cd34''"
    by (simp_all add: request_key_def resolve_url_def prod_config_def CACHE_NAME_def)
  from t1 f1 have r1: "fetch_handler prod_config offline sample_store navigation_request
       = (Respond (page_response ''old''), sample_store, [RefreshShell])
     \<and> fetch_event prod_config offline sample_store navigation_request
       = (Respond (page_response ''old''), sample_store)"
    by (simp add: prod_eq_iff)
  from t2 f2 a2 k have r2: "fst (fetch_event prod_config (online (page_response ''fresh'')) sample_store navigation_request)
       = Respond (page_response ''old'')
     \<and> entry (snd (fetch_event prod_config (online (page_response ''fresh'')) sample_store navigation_request))
        ''nuwault-v1.2.0-ab12cd34'' ''https://nuwault.com/index.html'' = Some (page_response ''fresh'')"
    by simp
  from r1 r2 show ?thesis by simp
qed

section \<open>Passthrough files\<close>

subsection \<open>Paths of the URLs the worker writes under\<close>











subsection \<open>Operations that keep the caches free of passthrough entries\<close>


















lemma clean_answerI:
  "no_passthrough_entries s' \<Longrightarrow> list_all safe_task ts \<Longrightarrow> clean_answer (r, s', ts)"
  by (simp add: clean_answer_def)








subsection \<open>The events\<close>
























section \<open>Properties of the page-side manager\<close>

text \<open>
  C9, as stated, fails for \<^verbatim>\<open>clearCache\<close>: when no reply arrives, its timer
  rejects after two seconds and the \<^verbatim>\<open>catch\<close> block deletes every cache directly;
  the call then resolves with success, and later than the timer by the time the deletions
  take.
\<close>

theorem clearCache_timeout_resolves_true:
  "worker_reply silent_page = None
   \<and> clearCache silent_page = (True, 2080, [])"
  by (simp add: silent_page_def clearCache_def await_reply_def clearCache_fallback_def
      sample_store_def)

text \<open>
  C9, amended.  On a page with an active worker whose reply never arrives:
  \<^verbatim>\<open>forceCacheUpdate\<close> resolves false when its timer fires after 15 seconds and
  \<^verbatim>\<open>clearAppCache\<close> resolves false when its timer fires after 10 seconds, both
  leaving the caches alone; \<^verbatim>\<open>getCacheStatus\<close> leaves its wait after 5 seconds and
  resolves, one cache operation later, to a fallback status carrying the timeout message
  (or to a failed status when the cache storage fails); \<^verbatim>\<open>clearCache\<close> leaves its
  wait after 2 seconds and then deletes every cache from the page, resolving true once
  the deletions are done (false when the cache storage fails).
\<close>

theorem command_timeouts:
  assumes "serviceWorkerSupported pg" and "hasRegistration pg" and "hasActiveWorker pg"
    and "worker_reply pg = None"
  shows "forceCacheUpdate_page pg = (False, 15000, page_caches pg)
    \<and> clearAppCache pg = (False, 10000, page_caches pg)
    \<and> getCacheStatus pg
        = (if page_cache_ok pg
           then (FallbackStatus timeout_message (map fst (page_caches pg)),
                 5000 + cache_op_latency pg, page_caches pg)
           else (FailedStatus (error_message StorageError),
                 5000 + cache_op_latency pg, page_caches pg))
    \<and> clearCache pg
        = (if page_cache_ok pg
           then (True, 2000 + cache_op_latency pg + length (page_caches pg) * cache_op_latency pg, [])
           else (False, 2000 + cache_op_latency pg, page_caches pg))"
  using assms
  by (simp add: forceCacheUpdate_page_def clearAppCache_def getCacheStatus_def clearCache_def
      await_reply_def getCacheStatus_fallback_def clearCache_fallback_def)

theorem command_timeouts_witness:
  "forceCacheUpdate_page silent_page = (False, 15000, sample_store)
   \<and> clearAppCache silent_page = (False, 10000, sample_store)
   \<and> getCacheStatus silent_page
       = (FallbackStatus timeout_message [''nuwault-v1.1.0-0f0f0f0f'', ''third-party'', ''nuwault-v1.2.0-ab12cd34''],
          5020, sample_store)
   \<and> clearCache silent_page = (True, 2080, [])"
  using command_timeouts [of silent_page]
  by (simp add: silent_page_def sample_store_def)

end
